theory Spec2Isabelle
  imports Main "HOL-Library.Word"
begin

unbundle bit_operations_syntax

section \<open>Python values, exceptions and results\<close>

text \<open>
  The values the datastore hands back for a column of \<open>corporate_customers\<close> and that the
  workflow tests with \<open>if not x\<close>: \<open>None\<close> (SQL NULL), an integer, or a string.
\<close>

datatype pyval = PNone | PInt int | PStr string

text \<open>Python truthiness, as tested by \<open>if x\<close> and \<open>if not x\<close>.\<close>

fun truthy :: "pyval \<Rightarrow> bool" where
  "truthy PNone = False"
| "truthy (PInt i) = (i \<noteq> 0)"
| "truthy (PStr s) = (s \<noteq> [])"

text \<open>Truthiness of an \<open>Optional[str]\<close>: \<open>None\<close> and the empty string are falsy.\<close>

fun truthy_str :: "string option \<Rightarrow> bool" where
  "truthy_str None = False"
| "truthy_str (Some s) = (s \<noteq> [])"

definition opt_val :: "string option \<Rightarrow> pyval" where
  "opt_val x = (case x of None \<Rightarrow> PNone | Some s \<Rightarrow> PStr s)"

text \<open>
  The exception classes that occur. All of them derive from \<open>Exception\<close>;
  \<open>SystemExit\<close>, raised by \<open>sys.exit\<close>, does not, so it is a separate way of leaving a
  function: \<open>except Exception\<close> catches every \<open>Raised e\<close> and no \<open>SysExit c\<close>.
\<close>

datatype exn =
    ValueError
  | MysqlError              \<comment> \<open>\<open>mysql.connector.Error\<close> and its subclasses\<close>
  | ConnectionClosedError   \<comment> \<open>\<open>nats.errors.ConnectionClosedError\<close>\<close>
  | TimeoutError            \<comment> \<open>\<open>nats.errors.TimeoutError\<close>\<close>
  | UnboundLocalError       \<comment> \<open>a local variable read before it was assigned\<close>
  | OtherException          \<comment> \<open>any other subclass of \<open>Exception\<close>\<close>

datatype abort = Raised exn | SysExit int

section \<open>The builtin \<open>int\<close> on a string\<close>

text \<open>
  A string of the environment is held as its bytes. The interpreter decodes them as
  UTF-8 with the error handler \<open>surrogateescape\<close> (its file-system encoding): a
  well-formed sequence gives its code point, and every byte that is not part of one
  gives the lone surrogate \<open>U+DC00 + byte\<close>.
\<close>

definition byte_in :: "nat list \<Rightarrow> nat \<Rightarrow> nat \<Rightarrow> nat \<Rightarrow> bool" where
  "byte_in bs i lo hi = (i < length bs \<and> lo \<le> bs ! i \<and> bs ! i \<le> hi)"

fun utf8_decode :: "nat list \<Rightarrow> nat list" where
  "utf8_decode [] = []"
| "utf8_decode (b # bs) =
     (if b < 0x80 then b # utf8_decode bs
      else if 0xC2 \<le> b \<and> b \<le> 0xDF \<and> byte_in bs 0 0x80 0xBF
      then ((b - 0xC0) * 64 + (bs ! 0 - 0x80)) # utf8_decode (drop 1 bs)
      else if 0xE0 \<le> b \<and> b \<le> 0xEF
              \<and> byte_in bs 0 (if b = 0xE0 then 0xA0 else 0x80) (if b = 0xED then 0x9F else 0xBF)
              \<and> byte_in bs 1 0x80 0xBF
      then ((b - 0xE0) * 4096 + (bs ! 0 - 0x80) * 64 + (bs ! 1 - 0x80)) # utf8_decode (drop 2 bs)
      else if 0xF0 \<le> b \<and> b \<le> 0xF4
              \<and> byte_in bs 0 (if b = 0xF0 then 0x90 else 0x80) (if b = 0xF4 then 0x8F else 0xBF)
              \<and> byte_in bs 1 0x80 0xBF \<and> byte_in bs 2 0x80 0xBF
      then ((b - 0xF0) * 262144 + (bs ! 0 - 0x80) * 4096 + (bs ! 1 - 0x80) * 64 + (bs ! 2 - 0x80))
             # utf8_decode (drop 3 bs)
      else (0xDC00 + b) # utf8_decode bs)"

text \<open>
  What \<open>int\<close> takes from the interpreter: its Unicode database, that is, which
  characters are whitespace and which are decimal digits, with their values; and the
  limit on the number of digits of a decimal literal (\<open>sys.get_int_max_str_digits()\<close>,
  0 for no limit).
\<close>

record interpreter =
  is_whitespace :: "nat \<Rightarrow> bool"
  to_decimal :: "nat \<Rightarrow> nat option"
  int_max_str_digits :: nat

text \<open>
  \<open>int(s)\<close> first maps the string to ASCII: a character below 127 stays, a Unicode
  whitespace character becomes a space, a Unicode decimal digit becomes the ASCII digit
  of its value, and anything else becomes \<open>?\<close>, which no number contains.
\<close>

definition to_ascii :: "interpreter \<Rightarrow> nat \<Rightarrow> char" where
  "to_ascii py c =
     (if c < 127 then char_of c
      else if is_whitespace py c then CHR '' ''
      else case to_decimal py c of
             Some d \<Rightarrow> char_of (48 + d)
           | None \<Rightarrow> CHR ''?'')"

text \<open>
  On the ASCII text, \<open>int\<close> strips the whitespace characters (space, tab, newline,
  vertical tab, form feed, carriage return), reads an optional sign and then decimal
  digits, where single underscores may separate digits; anything else raises
  \<open>ValueError\<close> (here \<open>None\<close>). A literal of more than 640 digits that exceeds the
  interpreter's limit raises \<open>ValueError\<close> as well.
\<close>

definition is_space :: "char \<Rightarrow> bool" where
  "is_space c = ((of_char c :: nat) \<in> {9, 10, 11, 12, 13, 32})"

definition is_digit :: "char \<Rightarrow> bool" where
  "is_digit c = (48 \<le> (of_char c :: nat) \<and> (of_char c :: nat) \<le> 57)"

definition digit_value :: "char \<Rightarrow> nat" where
  "digit_value c = of_char c - 48"

fun parse_digits :: "bool \<Rightarrow> nat \<Rightarrow> string \<Rightarrow> nat option" where
  "parse_digits prev acc [] = (if prev then Some acc else None)"
| "parse_digits prev acc (c # cs) =
     (if is_digit c then parse_digits True (10 * acc + digit_value c) cs
      else if c = CHR ''_'' \<and> prev then parse_digits False acc cs
      else None)"

definition strip :: "string \<Rightarrow> string" where
  "strip s = rev (dropWhile is_space (rev (dropWhile is_space s)))"

definition too_many_digits :: "nat \<Rightarrow> nat \<Rightarrow> bool" where
  "too_many_digits limit digits \<longleftrightarrow> 640 < digits \<and> 0 < limit \<and> limit < digits"

definition ascii_int :: "nat \<Rightarrow> string \<Rightarrow> int option" where
  "ascii_int limit s =
     (let t = strip s;
          (neg, body) = (case t of
                           c # cs \<Rightarrow> if c = CHR ''-'' then (True, cs)
                                     else if c = CHR ''+'' then (False, cs)
                                     else (False, t)
                         | [] \<Rightarrow> (False, t))
      in if too_many_digits limit (length (filter is_digit body)) then None
         else case parse_digits False 0 body of
                None \<Rightarrow> None
              | Some n \<Rightarrow> Some (if neg then - int n else int n))"

definition py_int :: "interpreter \<Rightarrow> string \<Rightarrow> int option" where
  "py_int py s =
     ascii_int (int_max_str_digits py) (map (to_ascii py) (utf8_decode (map of_char s)))"

text \<open>
  The interpreter of the examples is CPython 3.11 with its defaults: the limit is 4300
  digits, and the tables are those of the Unicode database 14.0, given here from 127 on
  (below, the database is not consulted): the whitespace characters, and the code point
  of the digit zero of every run of ten decimal digits.
\<close>

definition unicode_spaces :: "nat list" where
  "unicode_spaces =
     [0x85, 0xA0, 0x1680, 0x2000, 0x2001, 0x2002, 0x2003, 0x2004, 0x2005, 0x2006, 0x2007,
      0x2008, 0x2009, 0x200A, 0x2028, 0x2029, 0x202F, 0x205F, 0x3000]"

definition decimal_zeros :: "nat list" where
  "decimal_zeros =
     [0x660, 0x6F0, 0x7C0, 0x966, 0x9E6, 0xA66, 0xAE6, 0xB66, 0xBE6, 0xC66, 0xCE6, 0xD66,
      0xDE6, 0xE50, 0xED0, 0xF20, 0x1040, 0x1090, 0x17E0, 0x1810, 0x1946, 0x19D0, 0x1A80,
      0x1A90, 0x1B50, 0x1BB0, 0x1C40, 0x1C50, 0xA620, 0xA8D0, 0xA900, 0xA9D0, 0xA9F0,
      0xAA50, 0xABF0, 0xFF10, 0x104A0, 0x10D30, 0x11066, 0x110F0, 0x11136, 0x111D0,
      0x112F0, 0x11450, 0x114D0, 0x11650, 0x116C0, 0x11730, 0x118E0, 0x11950, 0x11C50,
      0x11D50, 0x11DA0, 0x16A60, 0x16AC0, 0x16B50, 0x1D7CE, 0x1D7D8, 0x1D7E2, 0x1D7EC,
      0x1D7F6, 0x1E140, 0x1E2F0, 0x1E950, 0x1FBF0]"

definition cpython_3_11 :: interpreter where
  "cpython_3_11 =
     \<lparr>is_whitespace = (\<lambda>c. c \<in> set unicode_spaces),
      to_decimal = (\<lambda>c. map_option (\<lambda>z. c - z)
                          (find (\<lambda>z. z \<le> c \<and> c < z + 10) decimal_zeros)),
      int_max_str_digits = 4300\<rparr>"

section \<open>Timestamps\<close>

text \<open>A naive \<open>datetime\<close>, and \<open>datetime.isoformat()\<close>.\<close>

record datetime =
  year :: nat
  month :: nat
  day :: nat
  hour :: nat
  minute :: nat
  second :: nat
  microsecond :: nat

definition valid_datetime :: "datetime \<Rightarrow> bool" where
  "valid_datetime d \<longleftrightarrow>
     1 \<le> year d \<and> year d \<le> 9999 \<and> 1 \<le> month d \<and> month d \<le> 12 \<and>
     1 \<le> day d \<and> day d \<le> 31 \<and> hour d < 24 \<and> minute d < 60 \<and> second d < 60 \<and>
     microsecond d < 1000000"

definition digit_char :: "nat \<Rightarrow> char" where
  "digit_char n = ''0123456789'' ! (n mod 10)"

fun decimal :: "nat \<Rightarrow> string" where
  "decimal n = (if n < 10 then [digit_char n] else decimal (n div 10) @ [digit_char n])"

declare decimal.simps [simp del]

text \<open>The format \<open>%0kd\<close> on a natural number.\<close>

definition zpad :: "nat \<Rightarrow> nat \<Rightarrow> string" where
  "zpad k n = replicate (k - length (decimal n)) (CHR ''0'') @ decimal n"

definition isoformat :: "datetime \<Rightarrow> string" where
  "isoformat d =
     zpad 4 (year d) @ ''-'' @ zpad 2 (month d) @ ''-'' @ zpad 2 (day d) @ ''T'' @
     zpad 2 (hour d) @ '':'' @ zpad 2 (minute d) @ '':'' @ zpad 2 (second d) @
     (if microsecond d = 0 then [] else ''.'' @ zpad 6 (microsecond d))"

section \<open>Version-4 UUIDs\<close>

text \<open>
  \<open>uuid.uuid4()\<close> is \<open>UUID(bytes=os.urandom(16), version=4)\<close>: the constructor
  overwrites the variant bits with \<open>10\<close> and the version nibble with 4;
  \<open>str\<close> prints the 32 lower-case hexadecimal digits in groups of 8-4-4-4-12.
\<close>

definition uuid4 :: "128 word \<Rightarrow> 128 word" where
  "uuid4 r =
     (((r AND NOT (push_bit 48 0xc000)) OR push_bit 48 0x8000)
        AND NOT (push_bit 64 0xf000)) OR push_bit 76 4"

definition hex_digit :: "nat \<Rightarrow> char" where
  "hex_digit n = ''0123456789abcdef'' ! (n mod 16)"

definition hex32 :: "128 word \<Rightarrow> string" where
  "hex32 u = map (\<lambda>i. hex_digit (unat (drop_bit (4 * (31 - i)) u AND 0xF))) [0..<32]"

definition uuid_str :: "128 word \<Rightarrow> string" where
  "uuid_str u =
     (let h = hex32 u
      in take 8 h @ ''-'' @ take 4 (drop 8 h) @ ''-'' @ take 4 (drop 12 h) @ ''-'' @
         take 4 (drop 16 h) @ ''-'' @ drop 20 h)"

section \<open>Configuration\<close>

text \<open>The process environment \<open>os.environ\<close>, and \<open>os.getenv\<close> with and without a default.\<close>

type_synonym environment = "string \<rightharpoonup> string"

definition getenv :: "environment \<Rightarrow> string \<Rightarrow> string option" where
  "getenv env k = env k"

definition getenv_default :: "environment \<Rightarrow> string \<Rightarrow> string \<Rightarrow> string" where
  "getenv_default env k d = (case env k of None \<Rightarrow> d | Some v \<Rightarrow> v)"

record db_config =
  host :: "string option"
  port :: int
  database :: "string option"
  user :: "string option"
  password :: "string option"
  charset :: string
  collation :: string

text \<open>The attributes of a \<open>TouchpointsCreator\<close> object.\<close>

record creator =
  db_config :: db_config
  nats_url :: "string option"
  nats_subject :: string
  nats_user :: "string option"
  nats_password :: "string option"
  customer_name :: "string option"

definition required_vars :: "string list" where
  "required_vars =
     [''DB_HOST'', ''DB_NAME'', ''DB_USER'', ''DB_PASSWORD'',
      ''NATS_URL'', ''NATS_USER'', ''NATS_PASSWORD'', ''CUSTOMER_NAME'']"

text \<open>\<open>[var for var in required_vars if not os.getenv(var)]\<close>\<close>

definition missing_vars :: "environment \<Rightarrow> string list" where
  "missing_vars env = filter (\<lambda>var. \<not> truthy_str (getenv env var)) required_vars"

text \<open>\<open>sep.join(xs)\<close>\<close>

fun join :: "string \<Rightarrow> string list \<Rightarrow> string" where
  "join sep [] = []"
| "join sep [x] = x"
| "join sep (x # y # ys) = x @ sep @ join sep (y # ys)"

section \<open>The world outside the process\<close>

text \<open>
  The two tables of the datastore that the workflow touches. The timestamp columns are
  \<open>datetime\<close> values or NULL.
\<close>

record customer_row =
  c_id :: pyval
  c_name :: pyval
  c_subscription_tier :: pyval
  c_created_at :: "datetime option"
  c_updated_at :: "datetime option"

record touchpoints_row =
  t_id :: string
  t_customer_id :: pyval
  t_welcome_outreach :: "datetime option"
  t_technical_onboarding :: "datetime option"
  t_follow_up_call :: "datetime option"
  t_feedback_session :: "datetime option"

text \<open>A JSON document, as \<open>json.dumps\<close> receives it; a dict keeps its insertion order.\<close>

datatype json =
    JNull
  | JInt int
  | JStr string
  | JList "json list"
  | JDict "(string \<times> json) list"

fun to_json :: "pyval \<Rightarrow> json" where
  "to_json PNone = JNull"
| "to_json (PInt i) = JInt i"
| "to_json (PStr s) = JStr s"

text \<open>
  Log lines: the level and the pieces of the f-string. A piece is literal text, the
  \<open>str\<close> of a value, or the \<open>str\<close> of an exception.
\<close>

datatype level = INFO | ERROR

datatype frag = Lit string | Val pyval | Exc exn

text \<open>
  The calls by which the process reaches a collaborator (connecting, sending a statement,
  committing, publishing, closing the bus connection) are appended to a history, in
  order; \<open>Enter s\<close> marks the call of the method that implements stage \<open>s\<close>.
\<close>

datatype stage = ResolveCustomer | CreateRecord | FetchSnapshot | PublishEvent

datatype sql =
    SelectCustomerByName pyval
  | InsertTouchpoints string pyval
  | SelectCustomerById pyval

datatype effect =
    Enter stage
  | DbConnect db_config
  | DbExecute sql
  | DbCommit
  | BusConnect "string option" "string option" "string option"
  | BusPublish string json
  | BusClose

text \<open>
  The three methods on the datastore end in the same clean-up,
  \<open>if 'connection' in locals() and connection.is_connected(): cursor.close();
  connection.close()\<close>, in a \<open>finally\<close> clause. What it finds is decided outside the
  process: the connection is no longer connected; it is connected and both \<open>close\<close>
  calls return; \<open>is_connected\<close> itself raises; or it is connected and one of the
  \<open>close\<close> calls raises.
\<close>

datatype cleanup =
    NotConnected
  | Closed
  | ProbeRaises exn
  | CloseRaises exn

text \<open>
  The exception that leaves the clean-up, if any, when \<open>connection\<close> is bound; the flag
  says whether \<open>cursor\<close> is bound as well. On a live connection \<open>cursor.close()\<close> is
  evaluated first, and reading the unbound name \<open>cursor\<close> raises \<open>UnboundLocalError\<close>.
\<close>

fun clean_up :: "bool \<Rightarrow> cleanup \<Rightarrow> exn option" where
  "clean_up bound NotConnected = None"
| "clean_up bound (ProbeRaises e) = Some e"
| "clean_up False Closed = Some UnboundLocalError"
| "clean_up False (CloseRaises e) = Some UnboundLocalError"
| "clean_up True Closed = None"
| "clean_up True (CloseRaises e) = Some e"

text \<open>
  An exception raised in a \<open>finally\<close> clause replaces the pending \<open>return\<close> or the
  pending exception of the method.
\<close>

definition leave :: "exn option \<Rightarrow> (abort + 'a) \<times> 'w \<Rightarrow> (abort + 'a) \<times> 'w" where
  "leave x r = (case x of None \<Rightarrow> r | Some e \<Rightarrow> (Inl (Raised e), snd r))"

text \<open>
  Where a method on the datastore may raise. At \<open>connect\<close>: \<open>connection\<close> stays unbound
  and the clean-up does nothing. At \<open>connection.cursor()\<close>: \<open>cursor\<close> stays unbound. At
  the statement (\<open>execute\<close>, \<open>fetchone\<close>) or at \<open>commit\<close>: both names are bound. In the
  clean-up after a body that returned. The bus client may raise at \<open>connect\<close>,
  \<open>publish\<close> or \<open>close\<close>.
\<close>

datatype read_fault =
    ReadConnect exn
  | ReadCursor exn cleanup
  | ReadExecute exn cleanup
  | ReadCleanup exn

datatype write_fault =
    WriteConnect exn
  | WriteCursor exn cleanup
  | WriteExecute exn cleanup
  | WriteCommit exn cleanup
  | WriteCleanup exn

datatype bus_step = AtBusConnect | AtBusPublish | AtBusClose

text \<open>
  The state of the world: the environment, the two tables, the datastore's comparison
  \<open>=\<close> on column values (it depends on the collation), the messages delivered on the
  bus, the history, the log, standard output, the interpreter; and what the outside
  decides during one run: which call raises which exception (\<open>None\<close>: no call of that
  stage raises), the clock, and the random bytes: \<open>urandom\<close> is what the next call of \<open>os.urandom(16)\<close>
  returns, \<open>urandom_later n\<close> what the call \<open>n + 1\<close> calls after it returns.
\<close>

record world =
  environ :: environment
  customers :: "customer_row list"
  touchpoints :: "touchpoints_row list"
  sql_eq :: "pyval \<Rightarrow> pyval \<Rightarrow> bool"
  bus :: "(string \<times> json) list"
  trace :: "effect list"
  logged :: "(level \<times> frag list) list"
  stdout :: "frag list list"
  python :: interpreter
  lookup_fault :: "read_fault option"
  insert_fault :: "write_fault option"
  details_fault :: "read_fault option"
  publish_fault :: "(bus_step \<times> exn) option"
  urandom :: "128 word"
  urandom_later :: "nat \<Rightarrow> 128 word"
  utcnow :: datetime

definition emit :: "effect \<Rightarrow> world \<Rightarrow> world" where
  "emit e w = w\<lparr>trace := trace w @ [e]\<rparr>"

definition logger_info :: "frag list \<Rightarrow> world \<Rightarrow> world" where
  "logger_info m w = w\<lparr>logged := logged w @ [(INFO, m)]\<rparr>"

definition logger_error :: "frag list \<Rightarrow> world \<Rightarrow> world" where
  "logger_error m w = w\<lparr>logged := logged w @ [(ERROR, m)]\<rparr>"

definition print :: "frag list \<Rightarrow> world \<Rightarrow> world" where
  "print s w = w\<lparr>stdout := stdout w @ [s]\<rparr>"

text \<open>One call of \<open>os.urandom(16)\<close> uses up the bytes it returns.\<close>

definition os_urandom :: "world \<Rightarrow> 128 word \<times> world" where
  "os_urandom w =
     (urandom w,
      w\<lparr>urandom := urandom_later w 0, urandom_later := (\<lambda>n. urandom_later w (Suc n))\<rparr>)"

section \<open>\<open>TouchpointsCreator\<close>: construction and validation\<close>

definition validate_env_vars :: "world \<Rightarrow> (abort + unit) \<times> world" where
  "validate_env_vars w =
     (let missing = missing_vars (environ w)
      in if missing \<noteq> []
         then (Inl (SysExit 1),
               logger_error
                 [Lit ''Missing required environment variables: '', Lit (join '', '' missing)] w)
         else (Inr (), w))"

text \<open>
  \<open>__init__\<close> reads the options, converting \<open>DB_PORT\<close> with \<open>int\<close>, and validates last.
\<close>

definition TouchpointsCreator_init :: "world \<Rightarrow> (abort + creator) \<times> world" where
  "TouchpointsCreator_init w =
     (let env = environ w
      in case py_int (python w) (getenv_default env ''DB_PORT'' ''3306'') of
           None \<Rightarrow> (Inl (Raised ValueError), w)
         | Some p \<Rightarrow>
             (let self = \<lparr>db_config = \<lparr>host = getenv env ''DB_HOST'',
                                       port = p,
                                       database = getenv env ''DB_NAME'',
                                       user = getenv env ''DB_USER'',
                                       password = getenv env ''DB_PASSWORD'',
                                       charset = ''utf8mb4'',
                                       collation = ''utf8mb4_unicode_ci''\<rparr>,
                          nats_url = getenv env ''NATS_URL'',
                          nats_subject = getenv_default env ''NATS_SUBJECT'' ''touchpoints-created'',
                          nats_user = getenv env ''NATS_USER'',
                          nats_password = getenv env ''NATS_PASSWORD'',
                          customer_name = getenv env ''CUSTOMER_NAME''\<rparr>
              in case validate_env_vars w of
                   (Inl a, w') \<Rightarrow> (Inl a, w')
                 | (Inr _, w') \<Rightarrow> (Inr self, w')))"

section \<open>The four stages\<close>

text \<open>
  Stage 1, \<open>get_customer_id\<close>. \<open>fetchone\<close> gives the first row the query selects.
  \<open>except Error\<close> catches the connector's errors only; any other exception leaves the
  method. The clean-up runs after the body and after the handler, whenever \<open>connect\<close>
  has returned; it touches neither table and is not part of the history. The same holds
  for stages 2 and 3.
\<close>

definition get_customer_id :: "creator \<Rightarrow> pyval \<Rightarrow> world \<Rightarrow> (abort + pyval) \<times> world" where
  "get_customer_id self name w =
     (let w1 = emit (DbConnect (db_config self)) (emit (Enter ResolveCustomer) w);
          on_error = (\<lambda>e w'. if e = MysqlError
                       then (Inr PNone,
                             logger_error
                               [Lit ''Database error while looking up customer: '', Exc e] w')
                       else (Inl (Raised e), w'));
          w2 = emit (DbExecute (SelectCustomerByName name)) w1;
          body = (case find (\<lambda>r. sql_eq w (c_name r) name) (customers w) of
                    Some r \<Rightarrow>
                      (Inr (c_id r),
                       logger_info
                         [Lit ''Found customer: '', Val (c_name r), Lit '' (ID: '', Val (c_id r),
                          Lit '', Tier: '', Val (c_subscription_tier r), Lit '')''] w2)
                  | None \<Rightarrow>
                      (Inr PNone,
                       logger_error
                         [Lit ''Customer '', Lit [CHR 0x27], Val name, Lit [CHR 0x27],
                          Lit '' not found in database''] w2))
      in case lookup_fault w of
           Some (ReadConnect e) \<Rightarrow> on_error e w1
         | Some (ReadCursor e c) \<Rightarrow> leave (clean_up False c) (on_error e w1)
         | Some (ReadExecute e c) \<Rightarrow> leave (clean_up True c) (on_error e w2)
         | Some (ReadCleanup e) \<Rightarrow> leave (Some e) body
         | None \<Rightarrow> body)"

text \<open>
  Stage 2, \<open>create_touchpoints_record\<close>. The identifier is generated once \<open>connect\<close>
  and \<open>cursor\<close> have returned, from 16 fresh random bytes. The row is in the table once
  \<open>commit\<close> has returned.
\<close>

definition new_touchpoints_row :: "string \<Rightarrow> pyval \<Rightarrow> touchpoints_row" where
  "new_touchpoints_row tid cid =
     \<lparr>t_id = tid, t_customer_id = cid, t_welcome_outreach = None,
      t_technical_onboarding = None, t_follow_up_call = None, t_feedback_session = None\<rparr>"

definition create_touchpoints_record ::
    "creator \<Rightarrow> pyval \<Rightarrow> world \<Rightarrow> (abort + string option) \<times> world" where
  "create_touchpoints_record self customer_id w =
     (let w1 = emit (DbConnect (db_config self)) (emit (Enter CreateRecord) w);
          on_error = (\<lambda>e w'. if e = MysqlError
                       then (Inr None,
                             logger_error
                               [Lit ''Database error while creating touchpoints record: '', Exc e] w')
                       else (Inl (Raised e), w'));
          (random_bytes, w1') = os_urandom w1;
          touchpoints_id = uuid_str (uuid4 random_bytes);
          w2 = emit (DbExecute (InsertTouchpoints touchpoints_id customer_id)) w1';
          w3 = emit DbCommit w2;
          body = (Inr (Some touchpoints_id),
                  logger_info
                    [Lit ''Created touchpoints record '', Lit touchpoints_id,
                     Lit '' for customer '', Val customer_id]
                    (w3\<lparr>touchpoints :=
                          touchpoints w3 @ [new_touchpoints_row touchpoints_id customer_id]\<rparr>))
      in case insert_fault w of
           Some (WriteConnect e) \<Rightarrow> on_error e w1
         | Some (WriteCursor e c) \<Rightarrow> leave (clean_up False c) (on_error e w1)
         | Some (WriteExecute e c) \<Rightarrow> leave (clean_up True c) (on_error e w2)
         | Some (WriteCommit e c) \<Rightarrow> leave (clean_up True c) (on_error e w3)
         | Some (WriteCleanup e) \<Rightarrow> leave (Some e) body
         | None \<Rightarrow> body)"

text \<open>
  Stage 3, \<open>get_customer_details\<close>. The row comes back as a dict in the order of the
  selected columns; the two timestamps, where not NULL, are replaced by their
  \<open>isoformat()\<close>.
\<close>

definition iso_or_none :: "datetime option \<Rightarrow> pyval" where
  "iso_or_none d = (case d of None \<Rightarrow> PNone | Some t \<Rightarrow> PStr (isoformat t))"

definition customer_dict :: "customer_row \<Rightarrow> (string \<times> pyval) list" where
  "customer_dict r =
     [(''id'', c_id r), (''name'', c_name r), (''subscription_tier'', c_subscription_tier r),
      (''created_at'', iso_or_none (c_created_at r)),
      (''updated_at'', iso_or_none (c_updated_at r))]"

definition get_customer_details ::
    "creator \<Rightarrow> pyval \<Rightarrow> world \<Rightarrow> (abort + (string \<times> pyval) list option) \<times> world" where
  "get_customer_details self customer_id w =
     (let w1 = emit (DbConnect (db_config self)) (emit (Enter FetchSnapshot) w);
          on_error = (\<lambda>e w'. if e = MysqlError
                       then (Inr None,
                             logger_error
                               [Lit ''Database error while fetching customer details: '', Exc e] w')
                       else (Inl (Raised e), w'));
          w2 = emit (DbExecute (SelectCustomerById customer_id)) w1;
          body = (Inr (map_option customer_dict
                         (find (\<lambda>r. sql_eq w (c_id r) customer_id) (customers w))),
                  w2)
      in case details_fault w of
           Some (ReadConnect e) \<Rightarrow> on_error e w1
         | Some (ReadCursor e c) \<Rightarrow> leave (clean_up False c) (on_error e w1)
         | Some (ReadExecute e c) \<Rightarrow> leave (clean_up True c) (on_error e w2)
         | Some (ReadCleanup e) \<Rightarrow> leave (Some e) body
         | None \<Rightarrow> body)"

text \<open>
  Stage 4, \<open>publish_touchpoints_created_event\<close>. Both handlers return \<open>False\<close>, so no
  exception leaves the method. The message handed to the bus is the document itself;
  its serialisation by \<open>json.dumps\<close> is not modelled.
\<close>

definition next_actions :: "string list" where
  "next_actions =
     [''Schedule welcome outreach'', ''Plan technical onboarding session'',
      ''Set up follow-up call'', ''Arrange feedback session'']"

definition event_payload :: "datetime \<Rightarrow> string \<Rightarrow> (string \<times> pyval) list \<Rightarrow> json" where
  "event_payload now touchpoints_id customer_details =
     JDict [(''event_type'', JStr ''touchpoints-created''),
            (''timestamp'', JStr (isoformat now @ ''Z'')),
            (''touchpoints_id'', JStr touchpoints_id),
            (''customer'', JDict (map (\<lambda>(k, v). (k, to_json v)) customer_details)),
            (''touchpoints'', JDict [(''welcome_outreach'', JNull),
                                     (''technical_onboarding'', JNull),
                                     (''follow_up_call'', JNull),
                                     (''feedback_session'', JNull)]),
            (''next_actions'', JList (map JStr next_actions))]"

definition publish_touchpoints_created_event ::
    "creator \<Rightarrow> string \<Rightarrow> (string \<times> pyval) list \<Rightarrow> world \<Rightarrow> bool \<times> world" where
  "publish_touchpoints_created_event self touchpoints_id customer_details w =
     (let w1 = emit (BusConnect (nats_url self) (nats_user self) (nats_password self))
                 (emit (Enter PublishEvent) w);
          on_error = (\<lambda>e w'. if e = ConnectionClosedError \<or> e = TimeoutError
                       then (False, logger_error [Lit ''NATS connection error: '', Exc e] w')
                       else (False, logger_error [Lit ''Error publishing NATS event: '', Exc e] w'));
          payload = event_payload (utcnow w) touchpoints_id customer_details;
          w2 = emit (BusPublish (nats_subject self) payload) w1;
          w3 = emit BusClose
                 (logger_info
                    [Lit ''Published '', Lit (nats_subject self),
                     Lit '' event for touchpoints '', Lit touchpoints_id]
                    (w2\<lparr>bus := bus w2 @ [(nats_subject self, payload)]\<rparr>))
      in case publish_fault w of
           Some (AtBusConnect, e) \<Rightarrow> on_error e w1
         | Some (AtBusPublish, e) \<Rightarrow> on_error e w2
         | Some (AtBusClose, e) \<Rightarrow> on_error e w3
         | None \<Rightarrow> (True, w3))"

section \<open>The workflow, the entry point and the demo wrapper\<close>

definition create_touchpoints_for_customer :: "creator \<Rightarrow> world \<Rightarrow> (abort + bool) \<times> world" where
  "create_touchpoints_for_customer self w =
     (let w0 = logger_info
                 [Lit ''Creating touchpoints for customer: '', Val (opt_val (customer_name self))] w
      in case get_customer_id self (opt_val (customer_name self)) w0 of
           (Inl a, w1) \<Rightarrow> (Inl a, w1)
         | (Inr customer_id, w1) \<Rightarrow>
             if \<not> truthy customer_id
             then (Inr False, logger_error [Lit ''Failed to find customer''] w1)
             else
               (case create_touchpoints_record self customer_id w1 of
                  (Inl a, w2) \<Rightarrow> (Inl a, w2)
                | (Inr None, w2) \<Rightarrow>
                    (Inr False, logger_error [Lit ''Failed to create touchpoints record''] w2)
                | (Inr (Some touchpoints_id), w2) \<Rightarrow>
                    if touchpoints_id = []
                    then (Inr False, logger_error [Lit ''Failed to create touchpoints record''] w2)
                    else
                      (case get_customer_details self customer_id w2 of
                         (Inl a, w3) \<Rightarrow> (Inl a, w3)
                       | (Inr None, w3) \<Rightarrow>
                           (Inr False, logger_error [Lit ''Failed to fetch customer details''] w3)
                       | (Inr (Some customer_details), w3) \<Rightarrow>
                           if customer_details = []
                           then (Inr False,
                                 logger_error [Lit ''Failed to fetch customer details''] w3)
                           else
                             (case publish_touchpoints_created_event
                                     self touchpoints_id customer_details w3 of
                                (event_success, w4) \<Rightarrow>
                                  if \<not> event_success
                                  then (Inr False,
                                        logger_error [Lit ''Failed to publish NATS event''] w4)
                                  else (Inr True,
                                        logger_info
                                          [Lit ''Successfully created touchpoints and published event'']
                                          w4)))))"

text \<open>
  \<open>main\<close>: \<open>except Exception\<close> turns every exception into \<open>sys.exit(1)\<close>; the
  \<open>SystemExit\<close> of validation passes through it.
\<close>

definition main :: "world \<Rightarrow> (abort + unit) \<times> world" where
  "main w =
     (let handler = (\<lambda>a w'. case a of
                       Raised e \<Rightarrow> (Inl (SysExit 1), logger_error [Lit ''Unexpected error: '', Exc e] w')
                     | SysExit c \<Rightarrow> (Inl (SysExit c), w'))
      in case TouchpointsCreator_init w of
           (Inl a, w1) \<Rightarrow> handler a w1
         | (Inr creator, w1) \<Rightarrow>
             (case create_touchpoints_for_customer creator w1 of
                (Inl a, w2) \<Rightarrow> handler a w2
              | (Inr success, w2) \<Rightarrow>
                  if success
                  then (Inl (SysExit 0),
                        logger_info [Lit ''Touchpoints creation completed successfully''] w2)
                  else (Inl (SysExit 1), logger_error [Lit ''Touchpoints creation failed''] w2)))"

text \<open>
  The exit status of a script whose body is \<open>asyncio.run(f())\<close>: the code of a
  \<open>SystemExit\<close>, 1 for an exception nobody caught, 0 when \<open>f\<close> returns.
\<close>

definition exit_status :: "(abort + unit) \<times> world \<Rightarrow> int" where
  "exit_status r = (case fst r of Inl (SysExit c) \<Rightarrow> c | Inl (Raised e) \<Rightarrow> 1 | Inr _ \<Rightarrow> 0)"

text \<open>\<open>run_example\<close> of the demo wrapper: it sets ten variables, then runs the workflow.\<close>

definition example_environ :: "environment \<Rightarrow> environment" where
  "example_environ env =
     env(''DB_HOST'' \<mapsto> ''localhost'',
         ''DB_PORT'' \<mapsto> ''33006'',
         ''DB_NAME'' \<mapsto> ''bassline-boogie'',
         ''DB_USER'' \<mapsto> ''bassline-boogie-user'',
         ''DB_PASSWORD'' \<mapsto> ''8Qd8*yZK&zIxS%!s'',
         ''NATS_SERVER'' \<mapsto> ''nats://localhost:40953'',
         ''NATS_SUBJECT'' \<mapsto> ''touchpoints-created'',
         ''NATS_USER'' \<mapsto> ''admin'',
         ''NATS_PASSWORD'' \<mapsto> ''admin'',
         ''CUSTOMER_NAME'' \<mapsto> ''Example Tech Solutions'')"

definition check_mark :: string where
  "check_mark = [CHR 0xE2, CHR 0x9C, CHR 0x85]"

definition cross_mark :: string where
  "cross_mark = [CHR 0xE2, CHR 0x9D, CHR 0x8C]"

definition run_example :: "world \<Rightarrow> (abort + unit) \<times> world" where
  "run_example w =
     (let w0 = print [Lit ''Creating touchpoints for customer...'']
                 (w\<lparr>environ := example_environ (environ w)\<rparr>);
          handler = (\<lambda>a w'. case a of
                       Raised e \<Rightarrow> (Inr (), print [Lit (cross_mark @ '' Error: ''), Exc e] w')
                     | SysExit c \<Rightarrow> (Inl (SysExit c), w'))
      in case TouchpointsCreator_init w0 of
           (Inl a, w1) \<Rightarrow> handler a w1
         | (Inr creator, w1) \<Rightarrow>
             (case create_touchpoints_for_customer creator w1 of
                (Inl a, w2) \<Rightarrow> handler a w2
              | (Inr success, w2) \<Rightarrow>
                  if success
                  then (Inr (), print [Lit (check_mark @ '' Touchpoints created successfully!'')] w2)
                  else (Inr (), print [Lit (cross_mark @ '' Failed to create touchpoints'')] w2)))"

section \<open>Observing a run\<close>

text \<open>
  What a run added to the history, the stages it entered, the statements it sent to the
  datastore, which of them are on the \<open>touchpoints\<close> table, and which calls went to the
  bus.
\<close>

definition new_effects :: "world \<Rightarrow> world \<Rightarrow> effect list" where
  "new_effects w w' = drop (length (trace w)) (trace w')"

fun stages_entered :: "effect list \<Rightarrow> stage list" where
  "stages_entered [] = []"
| "stages_entered (Enter s # es) = s # stages_entered es"
| "stages_entered (e # es) = stages_entered es"

fun statements :: "effect list \<Rightarrow> sql list" where
  "statements [] = []"
| "statements (DbExecute q # es) = q # statements es"
| "statements (e # es) = statements es"

fun on_touchpoints :: "sql \<Rightarrow> bool" where
  "on_touchpoints (InsertTouchpoints tid cid) = True"
| "on_touchpoints q = False"

fun is_connection :: "effect \<Rightarrow> bool" where
  "is_connection (DbConnect cfg) = True"
| "is_connection (BusConnect url u p) = True"
| "is_connection e = False"

fun is_bus_call :: "effect \<Rightarrow> bool" where
  "is_bus_call (BusConnect url u p) = True"
| "is_bus_call (BusPublish subject doc) = True"
| "is_bus_call BusClose = True"
| "is_bus_call e = False"

definition all_stages :: "stage list" where
  "all_stages = [ResolveCustomer, CreateRecord, FetchSnapshot, PublishEvent]"

text \<open>The world in which the workflow runs its first stage: the opening log line is written.\<close>

definition started :: "creator \<Rightarrow> world \<Rightarrow> world" where
  "started self w =
     logger_info [Lit ''Creating touchpoints for customer: '', Val (opt_val (customer_name self))] w"

text \<open>
  What no stage changes: the configuration, the customers, which calls raise, the clock.
  The random bytes are left as they are by every stage but the second.
\<close>

definition unchanged_inputs :: "world \<Rightarrow> world \<Rightarrow> bool" where
  "unchanged_inputs w w' \<longleftrightarrow>
     environ w' = environ w \<and> customers w' = customers w \<and> sql_eq w' = sql_eq w \<and>
     stdout w' = stdout w \<and> lookup_fault w' = lookup_fault w \<and>
     insert_fault w' = insert_fault w \<and> details_fault w' = details_fault w \<and>
     publish_fault w' = publish_fault w \<and> utcnow w' = utcnow w"

definition same_random :: "world \<Rightarrow> world \<Rightarrow> bool" where
  "same_random w w' \<longleftrightarrow> urandom w' = urandom w \<and> urandom_later w' = urandom_later w"

text \<open>
  The shape of an ISO-8601 timestamp in UTC, \<open>YYYY-MM-DDTHH:MM:SS[.ffffff]Z\<close>, and of
  the text of a version-4 UUID, \<open>xxxxxxxx-xxxx-4xxx-Nxxx-xxxxxxxxxxxx\<close> with \<open>N\<close> one of
  8, 9, a, b.
\<close>

definition iso8601_utc :: "string \<Rightarrow> bool" where
  "iso8601_utc s \<longleftrightarrow>
     (length s = 20 \<or> length s = 27) \<and>
     list_all is_digit (take 4 s) \<and> s ! 4 = CHR ''-'' \<and>
     list_all is_digit (take 2 (drop 5 s)) \<and> s ! 7 = CHR ''-'' \<and>
     list_all is_digit (take 2 (drop 8 s)) \<and> s ! 10 = CHR ''T'' \<and>
     list_all is_digit (take 2 (drop 11 s)) \<and> s ! 13 = CHR '':'' \<and>
     list_all is_digit (take 2 (drop 14 s)) \<and> s ! 16 = CHR '':'' \<and>
     list_all is_digit (take 2 (drop 17 s)) \<and>
     (if length s = 27 then s ! 19 = CHR ''.'' \<and> list_all is_digit (take 6 (drop 20 s))
      else True) \<and>
     s ! (length s - 1) = CHR ''Z''"

definition is_hex_digit :: "char \<Rightarrow> bool" where
  "is_hex_digit c = (c \<in> set ''0123456789abcdef'')"

definition uuid4_format :: "string \<Rightarrow> bool" where
  "uuid4_format s \<longleftrightarrow>
     length s = 36 \<and>
     list_all is_hex_digit (take 8 s) \<and> s ! 8 = CHR ''-'' \<and>
     list_all is_hex_digit (take 4 (drop 9 s)) \<and> s ! 13 = CHR ''-'' \<and>
     s ! 14 = CHR ''4'' \<and> list_all is_hex_digit (take 3 (drop 15 s)) \<and> s ! 18 = CHR ''-'' \<and>
     s ! 19 \<in> set ''89ab'' \<and> list_all is_hex_digit (take 3 (drop 20 s)) \<and> s ! 23 = CHR ''-'' \<and>
     list_all is_hex_digit (drop 24 s)"

text \<open>
  The number a UUID text denotes, as \<open>uuid.UUID(s).int\<close> reads it: the hyphens are
  dropped and the rest is read as a hexadecimal numeral.
\<close>

definition hex_digit_value :: "char \<Rightarrow> nat" where
  "hex_digit_value c = length (takeWhile (\<lambda>d. d \<noteq> c) ''0123456789abcdef'')"

definition hex_number :: "string \<Rightarrow> nat" where
  "hex_number s = foldl (\<lambda>a c. 16 * a + hex_digit_value c) 0 s"

definition uuid_int :: "string \<Rightarrow> 128 word" where
  "uuid_int s = of_nat (hex_number (filter (\<lambda>c. c \<noteq> CHR ''-'') s))"

text \<open>
  The 122 bits of a version-4 UUID that come from the random bytes: all but the version
  nibble (bits 76 to 79) and the two variant bits (62 and 63).
\<close>

definition random_bits :: "nat set" where
  "random_bits = {n. n < 128} - {62, 63, 76, 77, 78, 79}"

section \<open>Concrete worlds\<close>

text \<open>
  A complete configuration, a datastore with one customer and no fault anywhere; the
  other worlds differ from it in one respect each.
\<close>

definition full_environ :: environment where
  "full_environ =
     [''DB_HOST'' \<mapsto> ''localhost'', ''DB_NAME'' \<mapsto> ''crm'', ''DB_USER'' \<mapsto> ''svc'',
      ''DB_PASSWORD'' \<mapsto> ''secret'', ''NATS_URL'' \<mapsto> ''nats://localhost:4222'',
      ''NATS_USER'' \<mapsto> ''admin'', ''NATS_PASSWORD'' \<mapsto> ''admin'',
      ''CUSTOMER_NAME'' \<mapsto> ''Example Tech Solutions'']"

definition example_customer :: customer_row where
  "example_customer =
     \<lparr>c_id = PStr ''c-001'', c_name = PStr ''Example Tech Solutions'',
      c_subscription_tier = PStr ''enterprise'',
      c_created_at = Some \<lparr>year = 2024, month = 3, day = 7, hour = 9, minute = 5,
                            second = 1, microsecond = 0\<rparr>,
      c_updated_at = None\<rparr>"

definition example_now :: datetime where
  "example_now =
     \<lparr>year = 2025, month = 1, day = 2, hour = 3, minute = 4, second = 5, microsecond = 678\<rparr>"

definition quiet_world :: world where
  "quiet_world =
     \<lparr>environ = full_environ, customers = [example_customer], touchpoints = [],
      sql_eq = (=), bus = [], trace = [], logged = [], stdout = [], python = cpython_3_11,
      lookup_fault = None, insert_fault = None, details_fault = None, publish_fault = None,
      urandom = 0, urandom_later = (\<lambda>n. of_nat (Suc n)), utcnow = example_now\<rparr>"

definition example_creator :: creator where
  "example_creator =
     \<lparr>db_config = \<lparr>host = Some ''localhost'', port = 3306, database = Some ''crm'',
                   user = Some ''svc'', password = Some ''secret'', charset = ''utf8mb4'',
                   collation = ''utf8mb4_unicode_ci''\<rparr>,
      nats_url = Some ''nats://localhost:4222'', nats_subject = ''touchpoints-created'',
      nats_user = Some ''admin'', nats_password = Some ''admin'',
      customer_name = Some ''Example Tech Solutions''\<rparr>"

definition no_host_world :: world where
  "no_host_world = quiet_world\<lparr>environ := full_environ(''DB_HOST'' := None)\<rparr>"

definition bad_port_world :: world where
  "bad_port_world =
     quiet_world\<lparr>environ := full_environ(''DB_HOST'' := None, ''DB_PORT'' \<mapsto> ''abc'')\<rparr>"

definition empty_name_world :: world where
  "empty_name_world = quiet_world\<lparr>environ := full_environ(''CUSTOMER_NAME'' \<mapsto> [])\<rparr>"

definition bare_world :: world where
  "bare_world = quiet_world\<lparr>environ := Map.empty\<rparr>"

definition unknown_customer_world :: world where
  "unknown_customer_world = quiet_world\<lparr>customers := []\<rparr>"

definition zero_id_world :: world where
  "zero_id_world = quiet_world\<lparr>customers := [example_customer\<lparr>c_id := PInt 0\<rparr>]\<rparr>"

definition insert_fails_world :: world where
  "insert_fails_world = quiet_world\<lparr>insert_fault := Some (WriteExecute MysqlError Closed)\<rparr>"

definition details_fail_world :: world where
  "details_fail_world = quiet_world\<lparr>details_fault := Some (ReadConnect MysqlError)\<rparr>"

text \<open>
  A datastore that accepts the connection and then refuses the cursor, the connection
  staying up; and an environment whose port is written in full-width digits (the UTF-8
  bytes of U+FF13 U+FF13 U+FF10 U+FF16) while the host is missing.
\<close>

definition cursor_fails_world :: world where
  "cursor_fails_world = quiet_world\<lparr>lookup_fault := Some (ReadCursor MysqlError Closed)\<rparr>"

definition wide_port :: string where
  "wide_port = [CHR 0xEF, CHR 0xBC, CHR 0x93, CHR 0xEF, CHR 0xBC, CHR 0x93,
                CHR 0xEF, CHR 0xBC, CHR 0x90, CHR 0xEF, CHR 0xBC, CHR 0x96]"

definition wide_port_world :: world where
  "wide_port_world =
     quiet_world\<lparr>environ := full_environ(''DB_HOST'' := None, ''DB_PORT'' \<mapsto> wide_port)\<rparr>"

definition bus_down_world :: world where
  "bus_down_world = quiet_world\<lparr>publish_fault := Some (AtBusConnect, OtherException)\<rparr>"

section \<open>Configuration and validation\<close>

lemma mem_missing_vars:
  "v \<in> set (missing_vars env) \<longleftrightarrow> v \<in> set required_vars \<and> (env v = None \<or> env v = Some [])"
  by (cases "env v") (auto simp: missing_vars_def getenv_def)

lemma missing_vars_filter:
  "missing_vars env = filter (\<lambda>x. env x = None \<or> env x = Some []) required_vars"
  unfolding missing_vars_def getenv_def
  by (rule filter_cong[OF refl]) (metis truthy_str.elims(2) truthy_str.simps option.exhaust)

lemma init_cases:
  "TouchpointsCreator_init w =
     (case py_int (python w) (getenv_default (environ w) ''DB_PORT'' ''3306'') of
        None \<Rightarrow> (Inl (Raised ValueError), w)
      | Some p \<Rightarrow>
          if missing_vars (environ w) \<noteq> []
          then (Inl (SysExit 1),
                logger_error [Lit ''Missing required environment variables: '',
                              Lit (join '', '' (missing_vars (environ w)))] w)
          else (fst (TouchpointsCreator_init w), w))"
  by (simp add: TouchpointsCreator_init_def validate_env_vars_def Let_def split: option.splits)

lemma init_abort:
  "fst (TouchpointsCreator_init w) = Inl a \<Longrightarrow> a = Raised ValueError \<or> a = SysExit 1"
  by (auto simp: TouchpointsCreator_init_def validate_env_vars_def Let_def
           split: option.splits if_splits)

lemma init_reads_nats_url:
  "TouchpointsCreator_init w = (Inr self, w') \<Longrightarrow> nats_url self = environ w ''NATS_URL''"
  by (auto simp: TouchpointsCreator_init_def validate_env_vars_def Let_def getenv_def
           split: option.splits if_splits)

lemma main_init_abort:
  assumes "fst (TouchpointsCreator_init w) = Inl a"
  shows "exit_status (main w) = 1"
proof -
  obtain w' where "TouchpointsCreator_init w = (Inl a, w')"
    using assms by (cases "TouchpointsCreator_init w") auto
  with init_abort[OF assms] show ?thesis
    by (auto simp: main_def exit_status_def)
qed

lemma main_missing_exit:
  assumes "missing_vars (environ w) \<noteq> []"
  shows "exit_status (main w) = 1"
proof -
  have "\<exists>a. fst (TouchpointsCreator_init w) = Inl a"
    using assms by (subst init_cases) (simp split: option.splits)
  then show ?thesis using main_init_abort by blast
qed

text \<open>On a string of ASCII characters \<open>int\<close> reads the string as it is.\<close>

lemma utf8_decode_ascii: "\<forall>b\<in>set bs. b < 0x80 \<Longrightarrow> utf8_decode bs = bs"
  by (induction bs) simp_all

lemma py_int_ascii:
  assumes "\<forall>c\<in>set s. (of_char c :: nat) < 127"
  shows "py_int py s = ascii_int (int_max_str_digits py) s"
proof -
  have "\<forall>b\<in>set (map of_char s :: nat list). b < 0x80" using assms by auto
  then have "utf8_decode (map of_char s) = map of_char s" by (rule utf8_decode_ascii)
  moreover have "map (to_ascii py \<circ> of_char) s = s"
    using assms by (induction s) (simp_all add: to_ascii_def)
  ultimately show ?thesis by (simp add: py_int_def)
qed

lemma py_int_default_port: "py_int py ''3306'' = Some 3306"
  by (subst py_int_ascii)
     (simp_all add: ascii_int_def strip_def is_space_def is_digit_def digit_value_def
        too_many_digits_def)

lemma py_int_abc: "py_int py ''abc'' = None"
  by (subst py_int_ascii)
     (simp_all add: ascii_int_def strip_def is_space_def is_digit_def digit_value_def
        too_many_digits_def)

lemma py_int_example_port: "py_int py ''33006'' = Some 33006"
  by (subst py_int_ascii)
     (simp_all add: ascii_int_def strip_def is_space_def is_digit_def digit_value_def
        too_many_digits_def)

text \<open>
  Digits of another script and Unicode whitespace are accepted: the port 3306 in
  full-width digits, and 42 after a no-break space.
\<close>

lemma utf8_decode_wide_port:
  "utf8_decode (map of_char wide_port) = [0xFF13, 0xFF13, 0xFF10, 0xFF16]"
  by (simp add: wide_port_def byte_in_def)

lemma to_ascii_wide_digits:
  "to_ascii cpython_3_11 0xFF13 = CHR ''3''" "to_ascii cpython_3_11 0xFF10 = CHR ''0''"
  "to_ascii cpython_3_11 0xFF16 = CHR ''6''"
  by (simp_all add: to_ascii_def cpython_3_11_def unicode_spaces_def decimal_zeros_def
        char_of_def bit_0)

lemma py_int_wide_port: "py_int cpython_3_11 wide_port = Some 3306"
  by (simp add: py_int_def utf8_decode_wide_port to_ascii_wide_digits ascii_int_def strip_def
        is_space_def is_digit_def digit_value_def too_many_digits_def)

lemma py_int_no_break_space:
  "py_int cpython_3_11 [CHR 0xC2, CHR 0xA0, CHR ''4'', CHR ''2''] = Some 42"
  by (simp add: py_int_def byte_in_def to_ascii_def cpython_3_11_def unicode_spaces_def
        decimal_zeros_def char_of_def bit_0 ascii_int_def strip_def is_space_def is_digit_def
        digit_value_def too_many_digits_def)

lemma example_environ_missing:
  assumes "env ''NATS_URL'' = None"
  shows "missing_vars ((example_environ env)(''NATS_SERVER'' \<mapsto> url)) = [''NATS_URL'']"
  using assms
  by (simp add: missing_vars_def example_environ_def required_vars_def getenv_def)

lemma example_environ_server: "(example_environ env)(''NATS_SERVER'' \<mapsto> ''nats://localhost:40953'') = example_environ env"
  by (rule ext) (simp add: example_environ_def)

lemma example_environ_port:
  "py_int py (getenv_default ((example_environ env)(''NATS_SERVER'' \<mapsto> url)) ''DB_PORT'' ''3306'') =
     Some 33006"
  by (simp add: example_environ_def getenv_default_def py_int_example_port)

lemma init_full_environ:
  assumes "environ w = full_environ"
  shows "TouchpointsCreator_init w = (Inr example_creator, w)"
proof -
  have m: "missing_vars full_environ = []"
    by (simp add: missing_vars_def full_environ_def required_vars_def getenv_def)
  have p: "getenv_default full_environ ''DB_PORT'' ''3306'' = ''3306''"
    by (simp add: getenv_default_def full_environ_def)
  show ?thesis
    unfolding TouchpointsCreator_init_def validate_env_vars_def Let_def assms m p
      py_int_default_port
    by (simp add: example_creator_def getenv_def getenv_default_def full_environ_def)
qed

text \<open>
  C4 (amended). Provided \<open>DB_PORT\<close> is unset or holds a string that \<open>int\<close> accepts
  (decimal digits of any script, with single underscores between digits, an optional
  sign, whitespace around it, no more digits than the interpreter allows), whenever a
  required option is absent or empty, constructing the workflow logs one error line that lists the missing
  names (the required names that are absent or empty, in the order of \<open>required_vars\<close>)
  and raises \<open>SystemExit(1)\<close>; nothing else of the world changes, so no connection to
  the datastore or the bus has been attempted, and \<open>main\<close> exits with status 1.
\<close>

theorem init_missing_option_exits:
  assumes port: "py_int (python w) (getenv_default (environ w) ''DB_PORT'' ''3306'') \<noteq> None"
      and req: "v \<in> set required_vars"
      and miss: "environ w v = None \<or> environ w v = Some []"
  shows "TouchpointsCreator_init w =
           (Inl (SysExit 1),
            w\<lparr>logged := logged w @
                 [(ERROR, [Lit ''Missing required environment variables: '',
                           Lit (join '', '' (missing_vars (environ w)))])]\<rparr>)
         \<and> missing_vars (environ w) =
             filter (\<lambda>x. environ w x = None \<or> environ w x = Some []) required_vars
         \<and> trace (snd (TouchpointsCreator_init w)) = trace w
         \<and> exit_status (main w) = 1"
proof -
  from req miss have "v \<in> set (missing_vars (environ w))"
    by (simp add: mem_missing_vars)
  then have ne: "missing_vars (environ w) \<noteq> []" by auto
  from port obtain p where
    p: "py_int (python w) (getenv_default (environ w) ''DB_PORT'' ''3306'') = Some p"
    by auto
  have init: "TouchpointsCreator_init w =
           (Inl (SysExit 1),
            w\<lparr>logged := logged w @
                 [(ERROR, [Lit ''Missing required environment variables: '',
                           Lit (join '', '' (missing_vars (environ w)))])]\<rparr>)"
    using ne p by (subst init_cases) (simp add: logger_error_def)
  then have "exit_status (main w) = 1"
    by (intro main_init_abort[of w "SysExit 1"]) simp
  with init show ?thesis by (simp add: missing_vars_filter)
qed

text \<open>
  The theorem at a world where only \<open>DB_HOST\<close> is missing and the port is unset, and at
  one where the port is written in full-width digits.
\<close>

theorem init_missing_option_exits_witness:
  "py_int (python no_host_world)
       (getenv_default (environ no_host_world) ''DB_PORT'' ''3306'') \<noteq> None
   \<and> ''DB_HOST'' \<in> set required_vars
   \<and> environ no_host_world ''DB_HOST'' = None
   \<and> TouchpointsCreator_init no_host_world =
       (Inl (SysExit 1),
        no_host_world\<lparr>logged :=
          [(ERROR, [Lit ''Missing required environment variables: '', Lit ''DB_HOST''])]\<rparr>)
   \<and> trace (snd (TouchpointsCreator_init no_host_world)) = []
   \<and> exit_status (main no_host_world) = 1
   \<and> py_int (python wide_port_world)
       (getenv_default (environ wide_port_world) ''DB_PORT'' ''3306'') = Some 3306
   \<and> environ wide_port_world ''DB_HOST'' = None
   \<and> TouchpointsCreator_init wide_port_world =
       (Inl (SysExit 1),
        wide_port_world\<lparr>logged :=
          [(ERROR, [Lit ''Missing required environment variables: '', Lit ''DB_HOST''])]\<rparr>)
   \<and> exit_status (main wide_port_world) = 1"
proof -
  have g1: "py_int (python wide_port_world)
       (getenv_default (environ wide_port_world) ''DB_PORT'' ''3306'') = Some 3306"
    by (simp add: wide_port_world_def quiet_world_def getenv_default_def py_int_wide_port)
  then have g1': "py_int (python wide_port_world)
       (getenv_default (environ wide_port_world) ''DB_PORT'' ''3306'') \<noteq> None"
    by simp
  have g3: "environ wide_port_world ''DB_HOST'' = None
            \<or> environ wide_port_world ''DB_HOST'' = Some []"
    by (simp add: wide_port_world_def quiet_world_def)
  have gm: "missing_vars (environ wide_port_world) = [''DB_HOST'']"
    by (simp add: missing_vars_def wide_port_world_def quiet_world_def full_environ_def
          required_vars_def getenv_def)
  have gl: "logged wide_port_world = []"
    by (simp add: wide_port_world_def quiet_world_def)
  have h1: "py_int (python no_host_world)
       (getenv_default (environ no_host_world) ''DB_PORT'' ''3306'') \<noteq> None"
    by (simp add: no_host_world_def quiet_world_def full_environ_def getenv_default_def
          py_int_default_port)
  have h2: "''DB_HOST'' \<in> set required_vars"
    by (simp add: required_vars_def)
  have h3: "environ no_host_world ''DB_HOST'' = None \<or> environ no_host_world ''DB_HOST'' = Some []"
    by (simp add: no_host_world_def quiet_world_def)
  have m: "missing_vars (environ no_host_world) = [''DB_HOST'']"
    by (simp add: missing_vars_def no_host_world_def quiet_world_def full_environ_def
          required_vars_def getenv_def)
  have l: "logged no_host_world = []" "trace no_host_world = []"
    by (simp_all add: no_host_world_def quiet_world_def)
  have A: "TouchpointsCreator_init no_host_world =
       (Inl (SysExit 1),
        no_host_world\<lparr>logged :=
          [(ERROR, [Lit ''Missing required environment variables: '', Lit ''DB_HOST''])]\<rparr>)
   \<and> trace (snd (TouchpointsCreator_init no_host_world)) = []
   \<and> exit_status (main no_host_world) = 1"
    using init_missing_option_exits[OF h1 h2 h3] m l by simp
  have B: "TouchpointsCreator_init wide_port_world =
       (Inl (SysExit 1),
        wide_port_world\<lparr>logged :=
          [(ERROR, [Lit ''Missing required environment variables: '', Lit ''DB_HOST''])]\<rparr>)
   \<and> exit_status (main wide_port_world) = 1"
    using init_missing_option_exits[OF g1' h2 g3] gm gl by simp
  have e: "environ no_host_world ''DB_HOST'' = None" "environ wide_port_world ''DB_HOST'' = None"
    by (simp_all add: no_host_world_def wide_port_world_def quiet_world_def)
  from A B h1 h2 g1 e show ?thesis by (simp add: l)
qed

text \<open>
  C4 as stated fails: with \<open>DB_HOST\<close> missing and \<open>DB_PORT=abc\<close>, the conversion of the
  port raises \<open>ValueError\<close> before validation runs. The constructor does not exit and
  logs nothing; \<open>main\<close> exits with status 1 after the line \<open>Unexpected error\<close>, and no log
  line lists \<open>DB_HOST\<close>.
\<close>

theorem init_bad_port_no_listing:
  "''DB_HOST'' \<in> set required_vars
   \<and> environ bad_port_world ''DB_HOST'' = None
   \<and> environ bad_port_world ''DB_PORT'' = Some ''abc''
   \<and> TouchpointsCreator_init bad_port_world = (Inl (Raised ValueError), bad_port_world)
   \<and> logged (snd (TouchpointsCreator_init bad_port_world)) = []
   \<and> main bad_port_world =
       (Inl (SysExit 1),
        bad_port_world\<lparr>logged := [(ERROR, [Lit ''Unexpected error: '', Exc ValueError])]\<rparr>)"
proof -
  have p: "py_int (python bad_port_world)
       (getenv_default (environ bad_port_world) ''DB_PORT'' ''3306'') = None"
    by (simp add: bad_port_world_def quiet_world_def getenv_default_def py_int_abc)
  have i: "TouchpointsCreator_init bad_port_world = (Inl (Raised ValueError), bad_port_world)"
    by (subst init_cases) (simp add: p)
  have l: "logged bad_port_world = []"
    by (simp add: bad_port_world_def quiet_world_def)
  show ?thesis
    using i l
    by (simp add: main_def logger_error_def required_vars_def)
      (simp add: bad_port_world_def quiet_world_def)
qed

text \<open>
  C9. A required option that is set to the empty string is treated exactly like an
  absent one: it is in the list of missing names, that list is the same as when the
  option is removed, validation logs it and raises \<open>SystemExit(1)\<close> in both worlds, and
  \<open>main\<close> exits with status 1.
\<close>

theorem empty_option_is_missing:
  assumes req: "v \<in> set required_vars"
      and empty: "environ w v = Some []"
  shows "v \<in> set (missing_vars (environ w))
       \<and> missing_vars (environ w) = missing_vars ((environ w)(v := None))
       \<and> validate_env_vars w =
           (Inl (SysExit 1),
            w\<lparr>logged := logged w @
                 [(ERROR, [Lit ''Missing required environment variables: '',
                           Lit (join '', '' (missing_vars (environ w)))])]\<rparr>)
       \<and> validate_env_vars (w\<lparr>environ := (environ w)(v := None)\<rparr>) =
           (Inl (SysExit 1),
            w\<lparr>environ := (environ w)(v := None),
              logged := logged w @
                 [(ERROR, [Lit ''Missing required environment variables: '',
                           Lit (join '', '' (missing_vars (environ w)))])]\<rparr>)
       \<and> exit_status (main w) = 1
       \<and> exit_status (main (w\<lparr>environ := (environ w)(v := None)\<rparr>)) = 1"
proof -
  have mem: "v \<in> set (missing_vars (environ w))"
    using req empty by (simp add: mem_missing_vars)
  then have ne: "missing_vars (environ w) \<noteq> []" by auto
  have same: "missing_vars (environ w) = missing_vars ((environ w)(v := None))"
    unfolding missing_vars_filter
    by (rule filter_cong[OF refl]) (use empty in auto)
  have e1: "exit_status (main w) = 1"
    using ne by (rule main_missing_exit)
  have e2: "exit_status (main (w\<lparr>environ := (environ w)(v := None)\<rparr>)) = 1"
    by (rule main_missing_exit) (use ne same in simp)
  show ?thesis
    using mem ne same e1 e2
    by (simp add: validate_env_vars_def logger_error_def Let_def)
qed

text \<open>The theorem at a world where \<open>CUSTOMER_NAME\<close> is the empty string.\<close>

theorem empty_option_is_missing_witness:
  "''CUSTOMER_NAME'' \<in> set required_vars
   \<and> environ empty_name_world ''CUSTOMER_NAME'' = Some []
   \<and> validate_env_vars empty_name_world =
       (Inl (SysExit 1),
        empty_name_world\<lparr>logged :=
          [(ERROR, [Lit ''Missing required environment variables: '', Lit ''CUSTOMER_NAME''])]\<rparr>)
   \<and> exit_status (main empty_name_world) = 1"
proof -
  have h1: "''CUSTOMER_NAME'' \<in> set required_vars"
    by (simp add: required_vars_def)
  have h2: "environ empty_name_world ''CUSTOMER_NAME'' = Some []"
    by (simp add: empty_name_world_def quiet_world_def)
  have m: "missing_vars (environ empty_name_world) = [''CUSTOMER_NAME'']"
    by (simp add: missing_vars_def empty_name_world_def quiet_world_def full_environ_def
          required_vars_def getenv_def)
  have l: "logged empty_name_world = []"
    by (simp add: empty_name_world_def quiet_world_def)
  show ?thesis
    using empty_option_is_missing[OF h1 h2] h1 h2 m l by simp
qed

text \<open>
  C8. The demo wrapper sets \<open>NATS_SERVER\<close> and not \<open>NATS_URL\<close>, while the constructor
  takes the bus URL from \<open>NATS_URL\<close>. So in every environment where \<open>NATS_URL\<close> is not
  set, \<open>run_example\<close> stops in validation: the log line lists \<open>NATS_URL\<close> as missing, the
  script exits with status 1, and the same happens whatever value \<open>NATS_SERVER\<close> is given.
\<close>

theorem demo_wrapper_misses_nats_url:
  assumes "environ w ''NATS_URL'' = None"
  shows "example_environ (environ w) ''NATS_SERVER'' = Some ''nats://localhost:40953''
       \<and> example_environ (environ w) ''NATS_URL'' = None
       \<and> (\<forall>w0 self w1. TouchpointsCreator_init w0 = (Inr self, w1)
             \<longrightarrow> nats_url self = environ w0 ''NATS_URL'')
       \<and> ''NATS_URL'' \<in> set (missing_vars (example_environ (environ w)))
       \<and> run_example w =
           (Inl (SysExit 1),
            w\<lparr>environ := example_environ (environ w),
              stdout := stdout w @ [[Lit ''Creating touchpoints for customer...'']],
              logged := logged w @
                [(ERROR, [Lit ''Missing required environment variables: '', Lit ''NATS_URL''])]\<rparr>)
       \<and> exit_status (run_example w) = 1
       \<and> (\<forall>url. TouchpointsCreator_init
                   (w\<lparr>environ := (example_environ (environ w))(''NATS_SERVER'' \<mapsto> url)\<rparr>) =
                 (Inl (SysExit 1),
                  w\<lparr>environ := (example_environ (environ w))(''NATS_SERVER'' \<mapsto> url),
                    logged := logged w @
                      [(ERROR, [Lit ''Missing required environment variables: '',
                                Lit ''NATS_URL''])]\<rparr>))"
proof -
  have init: "TouchpointsCreator_init w' =
                 (Inl (SysExit 1),
                  w'\<lparr>logged := logged w' @
                      [(ERROR, [Lit ''Missing required environment variables: '',
                                Lit ''NATS_URL''])]\<rparr>)"
    if "environ w' = (example_environ (environ w))(''NATS_SERVER'' \<mapsto> url)" for url w'
    by (subst init_cases)
       (simp add: that example_environ_port example_environ_missing[of "environ w", OF assms]
          logger_error_def)
  have m: "missing_vars (example_environ (environ w)) = [''NATS_URL'']"
    using example_environ_missing[of "environ w" "''nats://localhost:40953''", OF assms]
    by (simp only: example_environ_server)
  define w0 where
    "w0 = print [Lit ''Creating touchpoints for customer...'']
            (w\<lparr>environ := example_environ (environ w)\<rparr>)"
  have "environ w0 = (example_environ (environ w))(''NATS_SERVER'' \<mapsto> ''nats://localhost:40953'')"
    by (simp add: w0_def print_def example_environ_server)
  then have "TouchpointsCreator_init w0 =
                 (Inl (SysExit 1),
                  w0\<lparr>logged := logged w0 @
                      [(ERROR, [Lit ''Missing required environment variables: '',
                                Lit ''NATS_URL''])]\<rparr>)"
    by (rule init)
  then have "run_example w =
                 (Inl (SysExit 1),
                  w0\<lparr>logged := logged w0 @
                      [(ERROR, [Lit ''Missing required environment variables: '',
                                Lit ''NATS_URL''])]\<rparr>)"
    by (simp add: run_example_def Let_def flip: w0_def)
  then have run: "run_example w =
           (Inl (SysExit 1),
            w\<lparr>environ := example_environ (environ w),
              stdout := stdout w @ [[Lit ''Creating touchpoints for customer...'']],
              logged := logged w @
                [(ERROR, [Lit ''Missing required environment variables: '', Lit ''NATS_URL''])]\<rparr>)"
    by (simp add: w0_def print_def)
  have a: "example_environ (environ w) ''NATS_SERVER'' = Some ''nats://localhost:40953''"
          "example_environ (environ w) ''NATS_URL'' = None"
    using assms by (simp_all add: example_environ_def)
  have over: "TouchpointsCreator_init
                   (w\<lparr>environ := (example_environ (environ w))(''NATS_SERVER'' \<mapsto> url)\<rparr>) =
                 (Inl (SysExit 1),
                  w\<lparr>environ := (example_environ (environ w))(''NATS_SERVER'' \<mapsto> url),
                    logged := logged w @
                      [(ERROR, [Lit ''Missing required environment variables: '',
                                Lit ''NATS_URL''])]\<rparr>)" for url
    by (subst init[where url = url]) simp_all
  show ?thesis
    using a m run over init_reads_nats_url
    by (simp add: exit_status_def)
qed

text \<open>The theorem at the empty environment.\<close>

theorem demo_wrapper_misses_nats_url_witness:
  "environ bare_world ''NATS_URL'' = None
   \<and> fst (run_example bare_world) = Inl (SysExit 1)
   \<and> logged (snd (run_example bare_world)) =
       [(ERROR, [Lit ''Missing required environment variables: '', Lit ''NATS_URL''])]
   \<and> trace (snd (run_example bare_world)) = []
   \<and> exit_status (run_example bare_world) = 1"
proof -
  have h: "environ bare_world ''NATS_URL'' = None"
    by (simp add: bare_world_def quiet_world_def)
  have l: "logged bare_world = []" "trace bare_world = []"
    by (simp_all add: bare_world_def quiet_world_def)
  show ?thesis
    using demo_wrapper_misses_nats_url[OF h] h l by (simp add: exit_status_def)
qed

section \<open>Identifiers and timestamps\<close>

subsection \<open>Version-4 UUIDs\<close>

lemma hex_digit_is_hex: "is_hex_digit (hex_digit n)"
  unfolding hex_digit_def is_hex_digit_def
  by (rule nth_mem) simp

lemma bit_set_fields:
  fixes r :: "128 word"
  shows "bit ((((r AND NOT (push_bit a (mask 2))) OR push_bit b 1)
                AND NOT (push_bit c (mask 4))) OR push_bit d 1) n \<longleftrightarrow>
         (n = d \<and> d < 128) \<or>
         (\<not> (c \<le> n \<and> n < c + 4) \<and> ((n = b \<and> b < 128) \<or> (\<not> (a \<le> n \<and> n < a + 2) \<and> bit r n)))"
  by (auto simp: bit_simps dest: bit_imp_le_length)

lemma uuid4_masks:
  "uuid4 r =
     (((r AND NOT (push_bit 62 (mask 2))) OR push_bit 63 1) AND NOT (push_bit 76 (mask 4)))
       OR push_bit 78 1"
  by (simp add: uuid4_def mask_eq_exp_minus_1 push_bit_eq_mult)

lemma bit_uuid4:
  "bit (uuid4 r) n \<longleftrightarrow>
     (if n = 63 \<or> n = 78 then True
      else if n = 62 \<or> n = 76 \<or> n = 77 \<or> n = 79 then False
      else bit r n)"
  unfolding uuid4_masks bit_set_fields
  by auto

lemma bit_uuid4_random: "n \<notin> {62, 63, 76, 77, 78, 79} \<Longrightarrow> bit (uuid4 r) n = bit r n"
  by (simp add: bit_uuid4)

lemma uuid4_version: "drop_bit 76 (uuid4 r) AND 0xF = 4"
proof -
  have "drop_bit 76 (uuid4 r) AND mask 4 = push_bit 2 1"
  proof (rule bit_word_eqI)
    fix n assume "n < LENGTH(128)"
    show "bit (drop_bit 76 (uuid4 r) AND mask 4) n \<longleftrightarrow> bit (push_bit 2 (1 :: 128 word)) n"
      unfolding bit_and_iff bit_drop_bit_eq bit_mask_iff bit_push_bit_iff bit_1_iff bit_uuid4
      using \<open>n < LENGTH(128)\<close> by (auto simp: possible_bit_word)
  qed
  then show ?thesis by (simp add: mask_eq_exp_minus_1)
qed

lemma uuid4_variant: "drop_bit 62 (uuid4 r) AND 3 = 2"
proof -
  have "drop_bit 62 (uuid4 r) AND mask 2 = push_bit 1 1"
  proof (rule bit_word_eqI)
    fix n assume "n < LENGTH(128)"
    show "bit (drop_bit 62 (uuid4 r) AND mask 2) n \<longleftrightarrow> bit (push_bit 1 (1 :: 128 word)) n"
      unfolding bit_and_iff bit_drop_bit_eq bit_mask_iff bit_push_bit_iff bit_1_iff bit_uuid4
      using \<open>n < LENGTH(128)\<close> by (auto simp: possible_bit_word)
  qed
  then show ?thesis by (simp add: mask_eq_exp_minus_1)
qed

lemma small_word_cases:
  fixes y :: "128 word"
  assumes "unat y < 4"
  shows "y = 0 \<or> y = 1 \<or> y = 2 \<or> y = 3"
proof -
  have y: "y = of_nat (unat y)" by simp
  from assms have "unat y = 0 \<or> unat y = 1 \<or> unat y = 2 \<or> unat y = 3" by arith
  then show ?thesis
    by (elim disjE) (use y in \<open>simp_all\<close>)
qed

lemma uuid4_variant_nibble:
  "unat (drop_bit 60 (uuid4 r) AND 0xF) \<in> {8, 9, 10, 11}"
proof -
  define y :: "128 word" where "y = drop_bit 60 r AND mask 2"
  have eq: "drop_bit 60 (uuid4 r) AND mask 4 = push_bit 3 1 OR y"
  proof (rule bit_word_eqI)
    fix n assume "n < LENGTH(128)"
    show "bit (drop_bit 60 (uuid4 r) AND mask 4) n \<longleftrightarrow> bit (push_bit 3 (1 :: 128 word) OR y) n"
      unfolding y_def bit_or_iff bit_and_iff bit_drop_bit_eq bit_mask_iff bit_push_bit_iff
        bit_1_iff bit_uuid4
      using \<open>n < LENGTH(128)\<close> by (auto simp: possible_bit_word)
  qed
  have "y < 2 ^ 2" unfolding y_def by (rule and_mask_less') simp
  then have "unat y < 4" by (simp add: word_less_nat_alt)
  then have "y = 0 \<or> y = 1 \<or> y = 2 \<or> y = 3" by (rule small_word_cases)
  then have "unat (push_bit 3 1 OR y) \<in> {8, 9, 10, 11}"
    by (elim disjE) simp_all
  with eq show ?thesis by (simp add: mask_eq_exp_minus_1)
qed

lemma length_hex32: "length (hex32 u) = 32"
  by (simp add: hex32_def)

lemma hex32_nth: "i < 32 \<Longrightarrow> hex32 u ! i = hex_digit (unat (drop_bit (4 * (31 - i)) u AND 0xF))"
  by (simp add: hex32_def)

lemma hex32_all_hex: "list_all is_hex_digit (hex32 u)"
  by (simp add: hex32_def list_all_iff hex_digit_is_hex)

lemma list_all_take: "list_all P xs \<Longrightarrow> list_all P (take n xs)"
  by (auto simp: list_all_iff dest: in_set_takeD)

lemma list_all_drop: "list_all P xs \<Longrightarrow> list_all P (drop n xs)"
  by (auto simp: list_all_iff dest: in_set_dropD)

lemma length_uuid_str: "length (uuid_str u) = 36"
  by (simp add: uuid_str_def Let_def length_hex32)

lemma uuid_str_nonempty: "uuid_str u \<noteq> []"
  using length_uuid_str[of u] by auto

lemma grouped_uuid4_format:
  assumes len: "length a = 8" "length b = 4" "length c = 4" "length d = 4" "length e = 12"
      and hex: "list_all is_hex_digit a" "list_all is_hex_digit b" "list_all is_hex_digit c"
               "list_all is_hex_digit d" "list_all is_hex_digit e"
      and ver: "c ! 0 = CHR ''4''"
      and var: "d ! 0 \<in> set ''89ab''"
  shows "uuid4_format (a @ ''-'' @ b @ ''-'' @ c @ ''-'' @ d @ ''-'' @ e)"
proof -
  have "list_all is_hex_digit (drop 1 c)" "list_all is_hex_digit (drop 1 d)"
    using hex by (simp_all add: list_all_drop)
  then show ?thesis
    unfolding uuid4_format_def
    using len hex ver var
    by (simp add: nth_append)
qed

lemma uuid_str_uuid4_format: "uuid4_format (uuid_str (uuid4 r))"
proof -
  let ?h = "hex32 (uuid4 r)"
  have h: "length ?h = 32" by (rule length_hex32)
  have v: "?h ! 12 = CHR ''4''"
    by (simp add: hex32_nth uuid4_version hex_digit_def)
  have "unat (drop_bit 60 (uuid4 r) AND 0xF) \<in> {8, 9, 10, 11}"
    by (rule uuid4_variant_nibble)
  then have "hex_digit (unat (drop_bit 60 (uuid4 r) AND 0xF)) \<in> set ''89ab''"
    by (auto simp: hex_digit_def)
  then have var: "?h ! 16 \<in> set ''89ab''"
    by (simp add: hex32_nth)
  show ?thesis
    unfolding uuid_str_def Let_def
  proof (rule grouped_uuid4_format)
    show "take 4 (drop 12 ?h) ! 0 = CHR ''4''" using v h by simp
    show "take 4 (drop 16 ?h) ! 0 \<in> set ''89ab''" using var h by simp
  qed (simp_all add: h list_all_take list_all_drop hex32_all_hex)
qed

lemma uuid_str_zero: "uuid_str (uuid4 0) = ''00000000-0000-4000-8000-000000000000''"
proof -
  have u: "uuid4 0 = 0x40008000000000000000"
    by (simp add: uuid4_def)
  have h: "hex32 0x40008000000000000000 = ''00000000000040008000000000000000''"
    by (simp add: hex32_def hex_digit_def upt_rec drop_bit_eq_div)
  show ?thesis
    by (simp add: u uuid_str_def h)
qed

lemma uuid_str_one: "uuid_str (uuid4 1) = ''00000000-0000-4000-8000-000000000001''"
proof -
  have u: "uuid4 1 = 0x40008000000000000001"
    by (simp add: uuid4_def)
  have h: "hex32 0x40008000000000000001 = ''00000000000040008000000000000001''"
    by (simp add: hex32_def hex_digit_def upt_rec drop_bit_eq_div)
  show ?thesis
    by (simp add: u uuid_str_def h)
qed

text \<open>Reading the text of a UUID back gives the number it was printed from.\<close>

lemma hex_number_snoc: "hex_number (xs @ [c]) = 16 * hex_number xs + hex_digit_value c"
  by (simp add: hex_number_def)

lemma hex_digit_value_hex_digit: "hex_digit_value (hex_digit m) = m mod 16"
proof -
  have "\<forall>k\<in>set [0..<16]. hex_digit_value (hex_digit k) = k"
    by (simp add: upt_rec hex_digit_def hex_digit_value_def)
  moreover have "m mod 16 \<in> set [0..<16]" by simp
  moreover have "hex_digit m = hex_digit (m mod 16)" by (simp add: hex_digit_def)
  ultimately show ?thesis by metis
qed

lemma hex_number_digits:
  "hex_number (map (\<lambda>i. hex_digit ((N div 16 ^ (k - 1 - i)) mod 16)) [0..<k]) = N mod 16 ^ k"
proof (induction k arbitrary: N)
  case 0
  show ?case by (simp add: hex_number_def)
next
  case (Suc k)
  have "map (\<lambda>i. hex_digit ((N div 16 ^ (Suc k - 1 - i)) mod 16)) [0..<k] =
        map (\<lambda>i. hex_digit (((N div 16) div 16 ^ (k - 1 - i)) mod 16)) [0..<k]"
  proof (rule map_cong[OF refl])
    fix i assume "i \<in> set [0..<k]"
    then have i: "i < k" by simp
    then have "Suc k - 1 - i = Suc (k - 1 - i)" by simp
    then have "N div 16 ^ (Suc k - 1 - i) = (N div 16) div 16 ^ (k - 1 - i)"
      by (simp add: div_mult2_eq)
    then show "hex_digit ((N div 16 ^ (Suc k - 1 - i)) mod 16) =
               hex_digit (((N div 16) div 16 ^ (k - 1 - i)) mod 16)" by simp
  qed
  then have "hex_number (map (\<lambda>i. hex_digit ((N div 16 ^ (Suc k - 1 - i)) mod 16)) [0..<k]) =
             (N div 16) mod 16 ^ k"
    by (simp only: Suc.IH)
  moreover have "[0..<Suc k] = [0..<k] @ [k]" by simp
  ultimately
  have "hex_number (map (\<lambda>i. hex_digit ((N div 16 ^ (Suc k - 1 - i)) mod 16)) [0..<Suc k]) =
          16 * ((N div 16) mod 16 ^ k)
          + hex_digit_value (hex_digit ((N div 16 ^ (Suc k - 1 - k)) mod 16))"
    by (simp only: map_append list.map hex_number_snoc)
  also have "\<dots> = 16 * ((N div 16) mod 16 ^ k) + N mod 16"
    by (simp add: hex_digit_value_hex_digit)
  also have "\<dots> = N mod 16 ^ Suc k"
    by (simp add: mod_mult2_eq)
  finally show ?case .
qed

lemma nibble_unat: "unat (drop_bit (4 * j) (u :: 128 word) AND 0xF) = (unat u div 16 ^ j) mod 16"
proof -
  have m: "(0xF :: 128 word) = mask 4" by (simp add: mask_eq_exp_minus_1)
  have tb: "take_bit 128 (unat u) = unat u"
    using unsigned_less[of u] by (simp add: take_bit_nat_eq_self_iff)
  have "unat (drop_bit (4 * j) u AND 0xF) = unat (take_bit 4 (drop_bit (4 * j) u))"
    by (simp only: m take_bit_eq_mask)
  also have "\<dots> = take_bit 4 (drop_bit (4 * j) (unat u))"
    by (simp add: unsigned_take_bit_eq unsigned_drop_bit_eq tb)
  also have "\<dots> = (unat u div 16 ^ j) mod 16"
    by (simp add: take_bit_eq_mod drop_bit_eq_div power_mult)
  finally show ?thesis .
qed

lemma hex_number_hex32: "hex_number (hex32 u) = unat u"
proof -
  have "hex32 u = map (\<lambda>i. hex_digit ((unat u div 16 ^ (32 - 1 - i)) mod 16)) [0..<32]"
    unfolding hex32_def by (rule map_cong[OF refl]) (simp add: nibble_unat)
  then have "hex_number (hex32 u) = unat u mod 16 ^ 32"
    by (simp only: hex_number_digits)
  moreover have "unat u < 2 ^ 128" using unsigned_less[of u] by simp
  ultimately show ?thesis by simp
qed

lemma filter_hyphen_hex:
  "list_all is_hex_digit xs \<Longrightarrow> filter (\<lambda>c. c \<noteq> CHR ''-'') xs = xs"
  by (induction xs) (auto simp: is_hex_digit_def)

lemma take_drop_step: "take k (drop n h) @ drop (n + k) h = drop n h"
  by (metis add.commute append_take_drop_id drop_drop)

lemma regroup_hex32:
  "take 8 h @ take 4 (drop 8 h) @ take 4 (drop 12 h) @ take 4 (drop 16 h) @ drop 20 h = h"
  using take_drop_step[of 4 16 h] take_drop_step[of 4 12 h] take_drop_step[of 4 8 h]
  by simp

lemma uuid_int_uuid_str: "uuid_int (uuid_str u) = u"
proof -
  let ?h = "hex32 u"
  have "filter (\<lambda>c. c \<noteq> CHR ''-'') (uuid_str u) =
        take 8 ?h @ take 4 (drop 8 ?h) @ take 4 (drop 12 ?h) @ take 4 (drop 16 ?h) @ drop 20 ?h"
    by (simp add: uuid_str_def Let_def filter_hyphen_hex list_all_take list_all_drop
          hex32_all_hex)
  then have "filter (\<lambda>c. c \<noteq> CHR ''-'') (uuid_str u) = ?h"
    by (simp only: regroup_hex32)
  then show ?thesis
    by (simp add: uuid_int_def hex_number_hex32)
qed

lemma uuid_str_inj: "uuid_str a = uuid_str b \<longleftrightarrow> a = b"
  by (metis uuid_int_uuid_str)

text \<open>Two version-4 UUIDs are equal exactly when their random bytes agree on the 122 bits.\<close>

lemma uuid4_eq_iff:
  "uuid4 r = uuid4 r' \<longleftrightarrow> (\<forall>n\<in>random_bits. bit r n = bit r' n)"
proof
  assume e: "uuid4 r = uuid4 r'"
  show "\<forall>n\<in>random_bits. bit r n = bit r' n"
  proof
    fix n assume "n \<in> random_bits"
    then have "n \<notin> {62, 63, 76, 77, 78, 79}" by (simp add: random_bits_def)
    then have "bit (uuid4 r) n = bit r n" "bit (uuid4 r') n = bit r' n"
      by (simp_all add: bit_uuid4_random)
    with e show "bit r n = bit r' n" by simp
  qed
next
  assume a: "\<forall>n\<in>random_bits. bit r n = bit r' n"
  show "uuid4 r = uuid4 r'"
  proof (rule bit_word_eqI)
    fix n assume "n < LENGTH(128)"
    then have "n \<in> random_bits \<or> n \<in> {62, 63, 76, 77, 78, 79}"
      by (auto simp: random_bits_def)
    with a show "bit (uuid4 r) n = bit (uuid4 r') n"
      unfolding bit_uuid4 by auto
  qed
qed

subsection \<open>\<open>isoformat\<close>\<close>

lemma is_digit_digit_char: "is_digit (digit_char n)"
proof -
  have "\<forall>c\<in>set ''0123456789''. is_digit c" by (simp add: is_digit_def)
  moreover have "digit_char n \<in> set ''0123456789''"
    unfolding digit_char_def by (rule nth_mem) simp
  ultimately show ?thesis by blast
qed

lemma decimal_digits: "list_all is_digit (decimal n)"
proof (induction n rule: decimal.induct)
  case (1 n)
  then show ?case
    by (subst decimal.simps) (simp add: is_digit_digit_char)
qed

lemma length_decimal: "n < 10 ^ k \<Longrightarrow> 0 < k \<Longrightarrow> length (decimal n) \<le> k"
proof (induction n arbitrary: k rule: decimal.induct)
  case (1 n)
  show ?case
  proof (cases "n < 10")
    case True
    with "1.prems" show ?thesis by (subst decimal.simps) simp
  next
    case False
    from "1.prems" obtain j where k: "k = Suc j" by (cases k) auto
    with "1.prems" have "n div 10 < 10 ^ j"
      by (simp add: less_mult_imp_div_less mult.commute)
    moreover have "0 < j"
    proof (rule ccontr)
      assume "\<not> 0 < j"
      with k "1.prems" False show False by simp
    qed
    ultimately have "length (decimal (n div 10)) \<le> j"
      using "1.IH"[OF False] by simp
    with False k show ?thesis by (subst decimal.simps) simp
  qed
qed

lemma length_zpad: "n < 10 ^ k \<Longrightarrow> 0 < k \<Longrightarrow> length (zpad k n) = k"
  using length_decimal[of n k] by (simp add: zpad_def)

lemma zpad_digits: "list_all is_digit (zpad k n)"
proof -
  have "is_digit (CHR ''0'')" by (simp add: is_digit_def)
  with decimal_digits[of n] show ?thesis by (auto simp: zpad_def list_all_iff)
qed

lemma grouped_iso8601:
  assumes len: "length Y = 4" "length M = 2" "length D = 2" "length h = 2" "length m = 2"
               "length s = 2"
      and dig: "list_all is_digit Y" "list_all is_digit M" "list_all is_digit D"
               "list_all is_digit h" "list_all is_digit m" "list_all is_digit s"
      and frac: "f = [] \<or> (\<exists>u. f = ''.'' @ u \<and> length u = 6 \<and> list_all is_digit u)"
  shows "iso8601_utc ((Y @ ''-'' @ M @ ''-'' @ D @ ''T'' @ h @ '':'' @ m @ '':'' @ s @ f) @ ''Z'')"
  using frac
proof
  assume "f = []"
  then show ?thesis
    unfolding iso8601_utc_def using len dig by (simp add: nth_append)
next
  assume "\<exists>u. f = ''.'' @ u \<and> length u = 6 \<and> list_all is_digit u"
  then obtain u where "f = ''.'' @ u" "length u = 6" "list_all is_digit u" by blast
  then show ?thesis
    unfolding iso8601_utc_def using len dig by (simp add: nth_append)
qed

lemma isoformat_iso8601:
  assumes "valid_datetime d"
  shows "iso8601_utc (isoformat d @ ''Z'')"
proof -
  from assms have b: "year d < 10 ^ 4" "month d < 10 ^ 2" "day d < 10 ^ 2" "hour d < 10 ^ 2"
      "minute d < 10 ^ 2" "second d < 10 ^ 2" "microsecond d < 10 ^ 6"
    by (simp_all add: valid_datetime_def)
  show ?thesis
    unfolding isoformat_def
    by (rule grouped_iso8601) (use b in \<open>simp_all add: length_zpad zpad_digits del: power_numeral\<close>)
qed

lemma isoformat_example_now: "isoformat example_now = ''2025-01-02T03:04:05.000678''"
  unfolding example_now_def by code_simp

lemma valid_example_now: "valid_datetime example_now"
  by (simp add: valid_datetime_def example_now_def)

section \<open>What each stage does\<close>

lemma stages_entered_append: "stages_entered (xs @ ys) = stages_entered xs @ stages_entered ys"
  by (induction xs rule: stages_entered.induct) simp_all

lemma statements_append: "statements (xs @ ys) = statements xs @ statements ys"
  by (induction xs rule: statements.induct) simp_all

lemma new_effects_append: "trace w' = trace w @ tr \<Longrightarrow> new_effects w w' = tr"
  by (simp add: new_effects_def)

lemma new_effects_trans:
  "trace w1 = trace w @ new_effects w w1 \<Longrightarrow> trace w2 = trace w1 @ new_effects w1 w2 \<Longrightarrow>
   new_effects w w2 = new_effects w w1 @ new_effects w1 w2
   \<and> trace w2 = trace w @ new_effects w w2"
  by (metis append.assoc new_effects_append)

lemma unchanged_inputs_trans:
  "unchanged_inputs w w1 \<Longrightarrow> unchanged_inputs w1 w2 \<Longrightarrow> unchanged_inputs w w2"
  by (simp add: unchanged_inputs_def)

subsection \<open>Stage 1\<close>

lemma get_customer_id_found:
  assumes "lookup_fault w = None"
      and "find (\<lambda>r. sql_eq w (c_name r) name) (customers w) = Some r"
  shows "get_customer_id self name w =
           (Inr (c_id r),
            w\<lparr>trace := trace w @ [Enter ResolveCustomer, DbConnect (db_config self),
                                    DbExecute (SelectCustomerByName name)],
              logged := logged w @
                [(INFO, [Lit ''Found customer: '', Val (c_name r), Lit '' (ID: '', Val (c_id r),
                         Lit '', Tier: '', Val (c_subscription_tier r), Lit '')''])]\<rparr>)"
  using assms by (simp add: get_customer_id_def emit_def logger_info_def Let_def)

lemma get_customer_id_not_found:
  assumes "lookup_fault w = None"
      and "find (\<lambda>r. sql_eq w (c_name r) name) (customers w) = None"
  shows "get_customer_id self name w =
           (Inr PNone,
            w\<lparr>trace := trace w @ [Enter ResolveCustomer, DbConnect (db_config self),
                                    DbExecute (SelectCustomerByName name)],
              logged := logged w @
                [(ERROR, [Lit ''Customer '', Lit [CHR 0x27], Val name, Lit [CHR 0x27],
                          Lit '' not found in database''])]\<rparr>)"
  using assms by (simp add: get_customer_id_def emit_def logger_error_def Let_def)

text \<open>
  A connector error is answered with \<open>None\<close> when it is raised by \<open>connect\<close>, or by a
  later call after which the clean-up raises nothing.
\<close>

lemma get_customer_id_error:
  assumes "lookup_fault w = Some f"
      and "f = ReadConnect MysqlError
           \<or> (\<exists>c. f = ReadCursor MysqlError c \<and> clean_up False c = None)
           \<or> (\<exists>c. f = ReadExecute MysqlError c \<and> clean_up True c = None)"
  shows "\<exists>w1. get_customer_id self name w = (Inr PNone, w1)"
  using assms by (auto simp: get_customer_id_def Let_def leave_def)

text \<open>
  When \<open>connection.cursor()\<close> raises and the connection is still up, the clean-up reads
  the unbound name \<open>cursor\<close>: the method raises \<open>UnboundLocalError\<close>, whatever the
  handler had decided. The handler's log line is written before.
\<close>

lemma get_customer_id_cursor_unbound:
  assumes "lookup_fault w = Some (ReadCursor e c)"
      and "c = Closed \<or> c = CloseRaises e'"
  shows "get_customer_id self name w =
           (Inl (Raised UnboundLocalError),
            (if e = MysqlError
             then logger_error [Lit ''Database error while looking up customer: '', Exc e]
             else id)
              (emit (DbConnect (db_config self)) (emit (Enter ResolveCustomer) w)))"
  using assms by (auto simp: get_customer_id_def Let_def leave_def)

lemma get_customer_id_truthy:
  assumes "get_customer_id self name w = (Inr cid, w1)" and "truthy cid"
  shows "lookup_fault w = None \<and>
         (\<exists>r. find (\<lambda>r. sql_eq w (c_name r) name) (customers w) = Some r \<and> cid = c_id r)"
  using assms
  by (auto simp: get_customer_id_def Let_def leave_def
      split: option.splits read_fault.splits if_splits)

lemma get_customer_id_frame:
  assumes "get_customer_id self name w = (res, w1)"
  shows "unchanged_inputs w w1 \<and> touchpoints w1 = touchpoints w \<and> bus w1 = bus w
       \<and> trace w1 = trace w @ new_effects w w1
       \<and> stages_entered (new_effects w w1) = [ResolveCustomer]
       \<and> filter on_touchpoints (statements (new_effects w w1)) = []
       \<and> filter is_bus_call (new_effects w w1) = []
       \<and> same_random w w1"
  using assms
  by (auto simp: get_customer_id_def emit_def logger_info_def logger_error_def Let_def
        new_effects_def unchanged_inputs_def same_random_def leave_def
      split: option.splits read_fault.splits if_splits)

subsection \<open>Stage 2\<close>

lemma create_touchpoints_record_ok:
  assumes "insert_fault w = None"
  shows "create_touchpoints_record self cid w =
           (Inr (Some (uuid_str (uuid4 (urandom w)))),
            w\<lparr>trace := trace w @ [Enter CreateRecord, DbConnect (db_config self),
                   DbExecute (InsertTouchpoints (uuid_str (uuid4 (urandom w))) cid), DbCommit],
              logged := logged w @
                [(INFO, [Lit ''Created touchpoints record '', Lit (uuid_str (uuid4 (urandom w))),
                         Lit '' for customer '', Val cid])],
              touchpoints := touchpoints w @
                [new_touchpoints_row (uuid_str (uuid4 (urandom w))) cid],
              urandom := urandom_later w 0,
              urandom_later := (\<lambda>n. urandom_later w (Suc n))\<rparr>)"
  using assms
  by (simp add: create_touchpoints_record_def os_urandom_def emit_def logger_info_def Let_def)

lemma create_touchpoints_record_error:
  assumes "insert_fault w = Some f"
      and "f = WriteConnect MysqlError
           \<or> (\<exists>c. f = WriteCursor MysqlError c \<and> clean_up False c = None)
           \<or> (\<exists>c. (f = WriteExecute MysqlError c \<or> f = WriteCommit MysqlError c)
                   \<and> clean_up True c = None)"
  shows "\<exists>w2. create_touchpoints_record self cid w = (Inr None, w2)"
  using assms
  by (auto simp: create_touchpoints_record_def os_urandom_def Let_def leave_def)

lemma create_touchpoints_record_Some:
  assumes "create_touchpoints_record self cid w = (Inr (Some tid), w2)"
  shows "insert_fault w = None"
  using assms
  by (auto simp: create_touchpoints_record_def os_urandom_def Let_def leave_def
      split: option.splits write_fault.splits if_splits)

lemma created_row:
  assumes "create_touchpoints_record self cid w = (Inr (Some tid), w2)"
  shows "touchpoints w2 = touchpoints w @ [new_touchpoints_row tid cid]
       \<and> tid = uuid_str (uuid4 (urandom w))"
proof -
  have "insert_fault w = None"
    using assms by (rule create_touchpoints_record_Some)
  from create_touchpoints_record_ok[OF this, of self cid] assms show ?thesis
    by auto
qed

lemma create_touchpoints_record_frame:
  assumes "create_touchpoints_record self cid w = (res, w2)"
  shows "unchanged_inputs w w2
       \<and> trace w2 = trace w @ new_effects w w2
       \<and> stages_entered (new_effects w w2) = [CreateRecord]
       \<and> filter is_bus_call (new_effects w w2) = []
       \<and> bus w2 = bus w"
  using assms
  by (auto simp: create_touchpoints_record_def os_urandom_def emit_def logger_info_def
        logger_error_def Let_def new_effects_def unchanged_inputs_def leave_def
      split: option.splits write_fault.splits if_splits)

text \<open>
  C6. Whenever the create stage returns an identifier, that identifier is the canonical
  text of a version-4 UUID generated in this call: read back as a number it is the 16
  random bytes the call drew, with the version nibble set to 4 and the variant bits to
  \<open>10\<close>, so 122 of its bits are random. The bytes are used up: the next call draws the
  following 16 bytes, and the identifier it creates is a different one unless the two
  draws agree on all 122 random bits. The table has gained exactly one row: this
  identifier, the given customer identifier as foreign key, and the four schedule
  fields NULL. The one statement sent is that \<open>INSERT\<close>.
\<close>

theorem created_record_shape:
  assumes "create_touchpoints_record self cid w = (Inr (Some tid), w')"
  shows "tid = uuid_str (uuid_int tid)
       \<and> uuid4_format tid
       \<and> uuid_int tid = uuid4 (urandom w)
       \<and> drop_bit 76 (uuid_int tid) AND 0xF = 4
       \<and> drop_bit 62 (uuid_int tid) AND 3 = 2
       \<and> (\<forall>n\<in>random_bits. bit (uuid_int tid) n = bit (urandom w) n)
       \<and> urandom w' = urandom_later w 0
       \<and> urandom_later w' = (\<lambda>n. urandom_later w (Suc n))
       \<and> (\<forall>self2 cid2 tid2 w''.
             create_touchpoints_record self2 cid2 w' = (Inr (Some tid2), w'') \<longrightarrow>
               uuid_int tid2 = uuid4 (urandom_later w 0)
             \<and> (tid2 = tid \<longleftrightarrow>
                  (\<forall>n\<in>random_bits. bit (urandom_later w 0) n = bit (urandom w) n)))
       \<and> touchpoints w' = touchpoints w @
            [\<lparr>t_id = tid, t_customer_id = cid, t_welcome_outreach = None,
              t_technical_onboarding = None, t_follow_up_call = None,
              t_feedback_session = None\<rparr>]
       \<and> statements (new_effects w w') = [InsertTouchpoints tid cid]"
proof -
  have "insert_fault w = None"
    using assms by (rule create_touchpoints_record_Some)
  from create_touchpoints_record_ok[OF this, of self cid] assms
  have tid: "tid = uuid_str (uuid4 (urandom w))"
    and w': "w' = w\<lparr>trace := trace w @ [Enter CreateRecord, DbConnect (db_config self),
                   DbExecute (InsertTouchpoints (uuid_str (uuid4 (urandom w))) cid), DbCommit],
              logged := logged w @
                [(INFO, [Lit ''Created touchpoints record '', Lit (uuid_str (uuid4 (urandom w))),
                         Lit '' for customer '', Val cid])],
              touchpoints := touchpoints w @
                [new_touchpoints_row (uuid_str (uuid4 (urandom w))) cid],
              urandom := urandom_later w 0,
              urandom_later := (\<lambda>n. urandom_later w (Suc n))\<rparr>"
    by simp_all
  have num: "uuid_int tid = uuid4 (urandom w)"
    unfolding tid by (rule uuid_int_uuid_str)
  have canon: "tid = uuid_str (uuid_int tid)"
    unfolding num by (rule tid)
  have fmt: "uuid4_format tid"
    unfolding tid by (rule uuid_str_uuid4_format)
  have ver: "drop_bit 76 (uuid_int tid) AND 0xF = 4"
    unfolding num by (rule uuid4_version)
  have var: "drop_bit 62 (uuid_int tid) AND 3 = 2"
    unfolding num by (rule uuid4_variant)
  have rnd: "\<forall>n\<in>random_bits. bit (uuid_int tid) n = bit (urandom w) n"
    unfolding num by (simp add: random_bits_def bit_uuid4_random)
  have used: "urandom w' = urandom_later w 0"
      "urandom_later w' = (\<lambda>n. urandom_later w (Suc n))"
    by (simp_all add: w')
  have nxt: "uuid_int tid2 = uuid4 (urandom_later w 0)
           \<and> (tid2 = tid \<longleftrightarrow> (\<forall>n\<in>random_bits. bit (urandom_later w 0) n = bit (urandom w) n))"
    if "create_touchpoints_record self2 cid2 w' = (Inr (Some tid2), w'')"
    for self2 cid2 tid2 w''
  proof -
    from created_row[OF that] have t2: "tid2 = uuid_str (uuid4 (urandom_later w 0))"
      by (simp add: used)
    have a: "uuid_int tid2 = uuid4 (urandom_later w 0)"
      unfolding t2 by (rule uuid_int_uuid_str)
    have "tid2 = tid \<longleftrightarrow> uuid4 (urandom_later w 0) = uuid4 (urandom w)"
      unfolding t2 tid by (rule uuid_str_inj)
    then have b: "tid2 = tid \<longleftrightarrow>
        (\<forall>n\<in>random_bits. bit (urandom_later w 0) n = bit (urandom w) n)"
      unfolding uuid4_eq_iff .
    from a b show ?thesis by (rule conjI)
  qed
  have tp: "touchpoints w' = touchpoints w @
            [\<lparr>t_id = tid, t_customer_id = cid, t_welcome_outreach = None,
              t_technical_onboarding = None, t_follow_up_call = None,
              t_feedback_session = None\<rparr>]"
    and st: "statements (new_effects w w') = [InsertTouchpoints tid cid]"
    by (simp_all add: w' tid new_effects_def new_touchpoints_row_def)
  from canon fmt num ver var rnd used nxt tp st show ?thesis
    by (intro conjI allI impI) (assumption | blast)+
qed

text \<open>
  The theorem at the quiet world, where the first 16 random bytes are all zero and the
  next 16 are the number 1: two calls in a row create two different identifiers.
\<close>

theorem created_record_shape_witness:
  "create_touchpoints_record example_creator (PStr ''c-001'') quiet_world =
     (Inr (Some ''00000000-0000-4000-8000-000000000000''),
      snd (create_touchpoints_record example_creator (PStr ''c-001'') quiet_world))
   \<and> uuid4_format ''00000000-0000-4000-8000-000000000000''
   \<and> uuid_int ''00000000-0000-4000-8000-000000000000'' = 0x40008000000000000000
   \<and> touchpoints (snd (create_touchpoints_record example_creator (PStr ''c-001'') quiet_world)) =
       [\<lparr>t_id = ''00000000-0000-4000-8000-000000000000'', t_customer_id = PStr ''c-001'',
         t_welcome_outreach = None, t_technical_onboarding = None, t_follow_up_call = None,
         t_feedback_session = None\<rparr>]
   \<and> fst (create_touchpoints_record example_creator (PStr ''c-001'')
            (snd (create_touchpoints_record example_creator (PStr ''c-001'') quiet_world))) =
       Inr (Some ''00000000-0000-4000-8000-000000000001'')
   \<and> \<not> (\<forall>n\<in>random_bits. bit (urandom_later quiet_world 0) n = bit (urandom quiet_world) n)"
proof -
  let ?w' = "snd (create_touchpoints_record example_creator (PStr ''c-001'') quiet_world)"
  have f: "insert_fault quiet_world = None" "urandom quiet_world = 0"
      "touchpoints quiet_world = []" "urandom_later quiet_world 0 = 1"
    by (simp_all add: quiet_world_def)
  have h: "create_touchpoints_record example_creator (PStr ''c-001'') quiet_world =
     (Inr (Some ''00000000-0000-4000-8000-000000000000''), ?w')"
    by (simp add: create_touchpoints_record_ok[OF f(1)] f(2) uuid_str_zero)
  note t = created_record_shape[OF h]
  have i: "insert_fault ?w' = None" "urandom ?w' = 1"
    by (simp_all add: create_touchpoints_record_ok[OF f(1)] f)
  have h2: "create_touchpoints_record example_creator (PStr ''c-001'') ?w' =
     (Inr (Some ''00000000-0000-4000-8000-000000000001''),
      snd (create_touchpoints_record example_creator (PStr ''c-001'') ?w'))"
    by (simp add: create_touchpoints_record_ok[OF i(1)] i(2) uuid_str_one)
  from t have n: "\<forall>self2 cid2 tid2 w''.
             create_touchpoints_record self2 cid2 ?w' = (Inr (Some tid2), w'') \<longrightarrow>
               uuid_int tid2 = uuid4 (urandom_later quiet_world 0)
             \<and> (tid2 = ''00000000-0000-4000-8000-000000000000'' \<longleftrightarrow>
                  (\<forall>n\<in>random_bits.
                     bit (urandom_later quiet_world 0) n = bit (urandom quiet_world) n))"
    by blast
  have h2f: "fst (create_touchpoints_record example_creator (PStr ''c-001'') ?w') =
     Inr (Some ''00000000-0000-4000-8000-000000000001'')"
    by (simp add: create_touchpoints_record_ok[OF i(1)] i(2) uuid_str_one)
  from n h2 have d: "\<not> (\<forall>n\<in>random_bits.
                     bit (urandom_later quiet_world 0) n = bit (urandom quiet_world) n)"
    by fastforce
  have u: "uuid_int ''00000000-0000-4000-8000-000000000000'' = 0x40008000000000000000"
    using t by (simp add: f uuid4_def)
  from t have "uuid4_format ''00000000-0000-4000-8000-000000000000''"
    and "touchpoints ?w' =
       [\<lparr>t_id = ''00000000-0000-4000-8000-000000000000'', t_customer_id = PStr ''c-001'',
         t_welcome_outreach = None, t_technical_onboarding = None, t_follow_up_call = None,
         t_feedback_session = None\<rparr>]"
    by (simp_all add: f)
  with h h2f d u show ?thesis by simp
qed

subsection \<open>Stage 3\<close>

lemma get_customer_details_ok:
  assumes "details_fault w = None"
  shows "get_customer_details self cid w =
           (Inr (map_option customer_dict
                   (find (\<lambda>r. sql_eq w (c_id r) cid) (customers w))),
            w\<lparr>trace := trace w @ [Enter FetchSnapshot, DbConnect (db_config self),
                                    DbExecute (SelectCustomerById cid)]\<rparr>)"
  using assms by (simp add: get_customer_details_def emit_def Let_def)

lemma get_customer_details_error:
  assumes "details_fault w = Some f"
      and "f = ReadConnect MysqlError
           \<or> (\<exists>c. f = ReadCursor MysqlError c \<and> clean_up False c = None)
           \<or> (\<exists>c. f = ReadExecute MysqlError c \<and> clean_up True c = None)"
  shows "\<exists>w3. get_customer_details self cid w = (Inr None, w3)"
  using assms by (auto simp: get_customer_details_def Let_def leave_def)

lemma get_customer_details_Some:
  assumes "get_customer_details self cid w = (Inr (Some cd), w3)"
  shows "details_fault w = None \<and>
         (\<exists>r. find (\<lambda>r. sql_eq w (c_id r) cid) (customers w) = Some r \<and> cd = customer_dict r)"
  using assms
  by (auto simp: get_customer_details_def Let_def leave_def
      split: option.splits read_fault.splits if_splits)

lemma customer_dict_nonempty: "customer_dict r \<noteq> []"
  by (simp add: customer_dict_def)

lemma get_customer_details_frame:
  assumes "get_customer_details self cid w = (res, w3)"
  shows "unchanged_inputs w w3 \<and> touchpoints w3 = touchpoints w \<and> bus w3 = bus w
       \<and> trace w3 = trace w @ new_effects w w3
       \<and> stages_entered (new_effects w w3) = [FetchSnapshot]
       \<and> filter on_touchpoints (statements (new_effects w w3)) = []
       \<and> filter is_bus_call (new_effects w w3) = []"
  using assms
  by (auto simp: get_customer_details_def emit_def logger_error_def Let_def new_effects_def
        unchanged_inputs_def leave_def
      split: option.splits read_fault.splits if_splits)

subsection \<open>Stage 4\<close>

lemma publish_ok:
  assumes "publish_fault w = None"
  shows "publish_touchpoints_created_event self tid cd w =
           (True,
            w\<lparr>trace := trace w @
                 [Enter PublishEvent,
                  BusConnect (nats_url self) (nats_user self) (nats_password self),
                  BusPublish (nats_subject self) (event_payload (utcnow w) tid cd), BusClose],
              logged := logged w @
                [(INFO, [Lit ''Published '', Lit (nats_subject self),
                         Lit '' event for touchpoints '', Lit tid])],
              bus := bus w @ [(nats_subject self, event_payload (utcnow w) tid cd)]\<rparr>)"
  using assms
  by (simp add: publish_touchpoints_created_event_def emit_def logger_info_def Let_def)

lemma publish_True:
  assumes "publish_touchpoints_created_event self tid cd w = (True, w4)"
  shows "publish_fault w = None"
  using assms
  by (auto simp: publish_touchpoints_created_event_def Let_def
      split: option.splits bus_step.splits if_splits)

lemma publish_fails:
  assumes "publish_fault w = Some (s, e)"
  shows "fst (publish_touchpoints_created_event self tid cd w) = False"
  using assms
  by (cases s) (auto simp: publish_touchpoints_created_event_def Let_def)

lemma publish_frame:
  assumes "publish_touchpoints_created_event self tid cd w = (ok, w4)"
  shows "unchanged_inputs w w4
       \<and> trace w4 = trace w @ new_effects w w4
       \<and> stages_entered (new_effects w w4) = [PublishEvent]
       \<and> statements (new_effects w w4) = []
       \<and> touchpoints w4 = touchpoints w"
  using assms
  by (auto simp: publish_touchpoints_created_event_def emit_def logger_info_def logger_error_def
        Let_def new_effects_def unchanged_inputs_def
      split: option.splits bus_step.splits if_splits)

subsection \<open>Exceptions and connection attempts\<close>

lemma stages_raise_exceptions:
  "get_customer_id self name w = (Inl a, w1) \<Longrightarrow> \<exists>e. a = Raised e"
  "create_touchpoints_record self cid w = (Inl a, w1) \<Longrightarrow> \<exists>e. a = Raised e"
  "get_customer_details self cid w = (Inl a, w1) \<Longrightarrow> \<exists>e. a = Raised e"
  by (auto simp: get_customer_id_def create_touchpoints_record_def get_customer_details_def
        os_urandom_def Let_def leave_def
      split: option.splits read_fault.splits write_fault.splits if_splits)

lemma stage_connects_once:
  "get_customer_id self name w = (r1, w1) \<Longrightarrow>
     length (filter is_connection (new_effects w w1)) = 1"
  "create_touchpoints_record self cid w = (r2, w2) \<Longrightarrow>
     length (filter is_connection (new_effects w w2)) = 1"
  "get_customer_details self cid w = (r3, w3) \<Longrightarrow>
     length (filter is_connection (new_effects w w3)) = 1"
  "publish_touchpoints_created_event self tid cd w = (ok, w4) \<Longrightarrow>
     length (filter is_connection (new_effects w w4)) = 1"
  by (auto simp: get_customer_id_def create_touchpoints_record_def get_customer_details_def
        publish_touchpoints_created_event_def os_urandom_def emit_def logger_info_def
        logger_error_def Let_def new_effects_def leave_def
      split: option.splits read_fault.splits write_fault.splits bus_step.splits if_splits)

section \<open>The workflow\<close>

lemma unchanged_inputs_started [simp]:
  "unchanged_inputs (started self w) w' = unchanged_inputs w w'"
  by (simp add: unchanged_inputs_def started_def logger_info_def)

lemma same_random_started [simp]:
  "same_random (started self w) w' = same_random w w'"
  by (simp add: same_random_def started_def logger_info_def)

lemma started_fields [simp]:
  "trace (started self w) = trace w" "touchpoints (started self w) = touchpoints w"
  "bus (started self w) = bus w" "customers (started self w) = customers w"
  "sql_eq (started self w) = sql_eq w" "lookup_fault (started self w) = lookup_fault w"
  "insert_fault (started self w) = insert_fault w"
  "details_fault (started self w) = details_fault w"
  "publish_fault (started self w) = publish_fault w"
  "urandom (started self w) = urandom w" "urandom_later (started self w) = urandom_later w"
  "utcnow (started self w) = utcnow w"
  by (simp_all add: started_def logger_info_def)

lemma logger_fields [simp]:
  "trace (logger_error m w) = trace w" "touchpoints (logger_error m w) = touchpoints w"
  "bus (logger_error m w) = bus w"
  "trace (logger_info m w) = trace w" "touchpoints (logger_info m w) = touchpoints w"
  "bus (logger_info m w) = bus w"
  by (simp_all add: logger_error_def logger_info_def)

lemma new_effects_logger [simp]:
  "new_effects w (logger_error m w') = new_effects w w'"
  "new_effects w (logger_info m w') = new_effects w w'"
  "new_effects (started self w) w' = new_effects w w'"
  by (simp_all add: new_effects_def)

subsection \<open>The workflow, stage by stage\<close>

lemma workflow_stage1_raises:
  assumes "get_customer_id self (opt_val (customer_name self)) (started self w) = (Inl a, w1)"
  shows "create_touchpoints_for_customer self w = (Inl a, w1)"
  using assms by (simp add: create_touchpoints_for_customer_def started_def)

lemma workflow_stage1_fails:
  assumes "get_customer_id self (opt_val (customer_name self)) (started self w) = (Inr cid, w1)"
      and "\<not> truthy cid"
  shows "create_touchpoints_for_customer self w =
           (Inr False, logger_error [Lit ''Failed to find customer''] w1)"
  using assms by (simp add: create_touchpoints_for_customer_def started_def)

lemma workflow_stage2_raises:
  assumes "get_customer_id self (opt_val (customer_name self)) (started self w) = (Inr cid, w1)"
      and "truthy cid"
      and "create_touchpoints_record self cid w1 = (Inl a, w2)"
  shows "create_touchpoints_for_customer self w = (Inl a, w2)"
  using assms by (simp add: create_touchpoints_for_customer_def started_def)

lemma workflow_stage2_fails:
  assumes "get_customer_id self (opt_val (customer_name self)) (started self w) = (Inr cid, w1)"
      and "truthy cid"
      and "create_touchpoints_record self cid w1 = (Inr tid, w2)"
      and "\<not> truthy_str tid"
  shows "create_touchpoints_for_customer self w =
           (Inr False, logger_error [Lit ''Failed to create touchpoints record''] w2)"
  using assms
  by (cases tid) (simp_all add: create_touchpoints_for_customer_def started_def)

lemma workflow_stage3_raises:
  assumes "get_customer_id self (opt_val (customer_name self)) (started self w) = (Inr cid, w1)"
      and "truthy cid"
      and "create_touchpoints_record self cid w1 = (Inr (Some tid), w2)"
      and "tid \<noteq> []"
      and "get_customer_details self cid w2 = (Inl a, w3)"
  shows "create_touchpoints_for_customer self w = (Inl a, w3)"
  using assms by (simp add: create_touchpoints_for_customer_def started_def)

lemma workflow_stage3_fails:
  assumes "get_customer_id self (opt_val (customer_name self)) (started self w) = (Inr cid, w1)"
      and "truthy cid"
      and "create_touchpoints_record self cid w1 = (Inr (Some tid), w2)"
      and "tid \<noteq> []"
      and "get_customer_details self cid w2 = (Inr cd, w3)"
      and "cd = None \<or> cd = Some []"
  shows "create_touchpoints_for_customer self w =
           (Inr False, logger_error [Lit ''Failed to fetch customer details''] w3)"
  using assms
  by (cases cd) (auto simp: create_touchpoints_for_customer_def started_def)

lemma workflow_stage4:
  assumes "get_customer_id self (opt_val (customer_name self)) (started self w) = (Inr cid, w1)"
      and "truthy cid"
      and "create_touchpoints_record self cid w1 = (Inr (Some tid), w2)"
      and "tid \<noteq> []"
      and "get_customer_details self cid w2 = (Inr (Some cd), w3)"
      and "cd \<noteq> []"
      and "publish_touchpoints_created_event self tid cd w3 = (ok, w4)"
  shows "create_touchpoints_for_customer self w =
           (Inr ok,
            if ok then logger_info [Lit ''Successfully created touchpoints and published event''] w4
            else logger_error [Lit ''Failed to publish NATS event''] w4)"
  using assms by (simp add: create_touchpoints_for_customer_def started_def)

lemma workflow_cases [case_names raise1 fail1 raise2 fail2 raise3 fail3 stage4]:
  fixes self w
  defines "name \<equiv> opt_val (customer_name self)"
  obtains
    (raise1) a w1 where
      "get_customer_id self name (started self w) = (Inl a, w1)"
      "create_touchpoints_for_customer self w = (Inl a, w1)"
  | (fail1) cid w1 where
      "get_customer_id self name (started self w) = (Inr cid, w1)" "\<not> truthy cid"
      "create_touchpoints_for_customer self w =
         (Inr False, logger_error [Lit ''Failed to find customer''] w1)"
  | (raise2) cid w1 a w2 where
      "get_customer_id self name (started self w) = (Inr cid, w1)" "truthy cid"
      "create_touchpoints_record self cid w1 = (Inl a, w2)"
      "create_touchpoints_for_customer self w = (Inl a, w2)"
  | (fail2) cid w1 tid w2 where
      "get_customer_id self name (started self w) = (Inr cid, w1)" "truthy cid"
      "create_touchpoints_record self cid w1 = (Inr tid, w2)" "\<not> truthy_str tid"
      "create_touchpoints_for_customer self w =
         (Inr False, logger_error [Lit ''Failed to create touchpoints record''] w2)"
  | (raise3) cid w1 tid w2 a w3 where
      "get_customer_id self name (started self w) = (Inr cid, w1)" "truthy cid"
      "create_touchpoints_record self cid w1 = (Inr (Some tid), w2)" "tid \<noteq> []"
      "get_customer_details self cid w2 = (Inl a, w3)"
      "create_touchpoints_for_customer self w = (Inl a, w3)"
  | (fail3) cid w1 tid w2 cd w3 where
      "get_customer_id self name (started self w) = (Inr cid, w1)" "truthy cid"
      "create_touchpoints_record self cid w1 = (Inr (Some tid), w2)" "tid \<noteq> []"
      "get_customer_details self cid w2 = (Inr cd, w3)" "cd = None \<or> cd = Some []"
      "create_touchpoints_for_customer self w =
         (Inr False, logger_error [Lit ''Failed to fetch customer details''] w3)"
  | (stage4) cid w1 tid w2 cd w3 ok w4 where
      "get_customer_id self name (started self w) = (Inr cid, w1)" "truthy cid"
      "create_touchpoints_record self cid w1 = (Inr (Some tid), w2)" "tid \<noteq> []"
      "get_customer_details self cid w2 = (Inr (Some cd), w3)" "cd \<noteq> []"
      "publish_touchpoints_created_event self tid cd w3 = (ok, w4)"
      "create_touchpoints_for_customer self w =
         (Inr ok,
          if ok then logger_info [Lit ''Successfully created touchpoints and published event''] w4
          else logger_error [Lit ''Failed to publish NATS event''] w4)"
proof -
  obtain r1 w1 where s1: "get_customer_id self name (started self w) = (r1, w1)"
    by (cases "get_customer_id self name (started self w)")
  show thesis
  proof (cases r1)
    case (Inl a)
    with s1 show thesis
      using raise1 workflow_stage1_raises unfolding name_def by blast
  next
    case (Inr cid)
    note r1 = this
    show thesis
    proof (cases "truthy cid")
      case False
      with s1 r1 show thesis
        using fail1 workflow_stage1_fails unfolding name_def by blast
    next
      case True
      note t1 = this
      obtain r2 w2 where s2: "create_touchpoints_record self cid w1 = (r2, w2)"
        by (cases "create_touchpoints_record self cid w1")
      show thesis
      proof (cases r2)
        case (Inl a)
        with s1 r1 t1 s2 show thesis
          using raise2 workflow_stage2_raises unfolding name_def by blast
      next
        case (Inr tid)
        note r2 = this
        show thesis
        proof (cases "truthy_str tid")
          case False
          with s1 r1 t1 s2 r2 show thesis
            using fail2 workflow_stage2_fails unfolding name_def by blast
        next
          case True
          then obtain t where tid: "tid = Some t" and t2: "t \<noteq> []"
            by (cases tid) auto
          obtain r3 w3 where s3: "get_customer_details self cid w2 = (r3, w3)"
            by (cases "get_customer_details self cid w2")
          show thesis
          proof (cases r3)
            case (Inl a)
            with s1 r1 t1 s2 r2 tid t2 s3 show thesis
              using raise3 workflow_stage3_raises unfolding name_def by blast
          next
            case (Inr cd)
            note r3 = this
            show thesis
            proof (cases "cd = None \<or> cd = Some []")
              case True
              with s1 r1 t1 s2 r2 tid t2 s3 r3 show thesis
                using fail3 workflow_stage3_fails unfolding name_def by blast
            next
              case False
              then obtain d where cd: "cd = Some d" and t3: "d \<noteq> []"
                by (cases cd) auto
              obtain ok w4 where
                s4: "publish_touchpoints_created_event self t d w3 = (ok, w4)"
                by (cases "publish_touchpoints_created_event self t d w3")
              show thesis
                using stage4[of cid w1 t w2 d w3 ok w4]
                  workflow_stage4[of self w cid w1 t w2 d w3 ok w4]
                  s1 r1 t1 s2 r2 tid t2 s3 r3 cd t3 s4
                unfolding name_def by blast
            qed
          qed
        qed
      qed
    qed
  qed
qed

lemma workflow_abort_is_exception:
  assumes "fst (create_touchpoints_for_customer self w) = Inl a"
  shows "\<exists>e. a = Raised e"
  using assms
  by (cases self w rule: workflow_cases) (auto dest: stages_raise_exceptions split: if_splits)

lemma workflow_True:
  assumes "fst (create_touchpoints_for_customer self w) = Inr True"
  shows "\<exists>cid w1 tid w2 cd w3 w4.
           get_customer_id self (opt_val (customer_name self)) (started self w) = (Inr cid, w1)
         \<and> truthy cid
         \<and> create_touchpoints_record self cid w1 = (Inr (Some tid), w2) \<and> tid \<noteq> []
         \<and> get_customer_details self cid w2 = (Inr (Some cd), w3) \<and> cd \<noteq> []
         \<and> publish_touchpoints_created_event self tid cd w3 = (True, w4)
         \<and> snd (create_touchpoints_for_customer self w) =
             logger_info [Lit ''Successfully created touchpoints and published event''] w4"
proof -
  let ?name = "opt_val (customer_name self)"
  obtain r1 w1 where s1: "get_customer_id self ?name (started self w) = (r1, w1)"
    by (cases "get_customer_id self ?name (started self w)")
  from assms s1 obtain cid where r1: "r1 = Inr cid" and t: "truthy cid"
    by (cases r1) (auto simp: create_touchpoints_for_customer_def started_def split: if_splits)
  obtain r2 w2 where s2: "create_touchpoints_record self cid w1 = (r2, w2)"
    by (cases "create_touchpoints_record self cid w1")
  from assms s1 r1 t s2 obtain tid where r2: "r2 = Inr (Some tid)" and t2: "tid \<noteq> []"
    by (cases r2)
       (auto simp: create_touchpoints_for_customer_def started_def split: if_splits option.splits)
  obtain r3 w3 where s3: "get_customer_details self cid w2 = (r3, w3)"
    by (cases "get_customer_details self cid w2")
  from assms s1 r1 t s2 r2 t2 s3 obtain cd where r3: "r3 = Inr (Some cd)" and t3: "cd \<noteq> []"
    by (cases r3)
       (auto simp: create_touchpoints_for_customer_def started_def split: if_splits option.splits)
  obtain ok w4 where s4: "publish_touchpoints_created_event self tid cd w3 = (ok, w4)"
    by (cases "publish_touchpoints_created_event self tid cd w3")
  from workflow_stage4[OF s1[unfolded r1] t s2[unfolded r2] t2 s3[unfolded r3] t3 s4] assms
  have "ok" and "snd (create_touchpoints_for_customer self w) =
             logger_info [Lit ''Successfully created touchpoints and published event''] w4"
    by (auto split: if_splits)
  with s1 r1 t s2 r2 t2 s3 r3 t3 s4 show ?thesis by auto
qed

lemma workflow_succeeds_iff:
  "fst (create_touchpoints_for_customer self w) = Inr True \<longleftrightarrow>
     (\<exists>cid w1 tid w2 cd w3 w4.
        get_customer_id self (opt_val (customer_name self)) (started self w) = (Inr cid, w1)
      \<and> truthy cid
      \<and> create_touchpoints_record self cid w1 = (Inr (Some tid), w2)
      \<and> get_customer_details self cid w2 = (Inr (Some cd), w3)
      \<and> publish_touchpoints_created_event self tid cd w3 = (True, w4))"
proof
  assume "fst (create_touchpoints_for_customer self w) = Inr True"
  from workflow_True[OF this] show
    "\<exists>cid w1 tid w2 cd w3 w4.
        get_customer_id self (opt_val (customer_name self)) (started self w) = (Inr cid, w1)
      \<and> truthy cid
      \<and> create_touchpoints_record self cid w1 = (Inr (Some tid), w2)
      \<and> get_customer_details self cid w2 = (Inr (Some cd), w3)
      \<and> publish_touchpoints_created_event self tid cd w3 = (True, w4)"
    by blast
next
  assume "\<exists>cid w1 tid w2 cd w3 w4.
        get_customer_id self (opt_val (customer_name self)) (started self w) = (Inr cid, w1)
      \<and> truthy cid
      \<and> create_touchpoints_record self cid w1 = (Inr (Some tid), w2)
      \<and> get_customer_details self cid w2 = (Inr (Some cd), w3)
      \<and> publish_touchpoints_created_event self tid cd w3 = (True, w4)"
  then obtain cid w1 tid w2 cd w3 w4 where
        s1: "get_customer_id self (opt_val (customer_name self)) (started self w) = (Inr cid, w1)"
    and t1: "truthy cid"
    and s2: "create_touchpoints_record self cid w1 = (Inr (Some tid), w2)"
    and s3: "get_customer_details self cid w2 = (Inr (Some cd), w3)"
    and s4: "publish_touchpoints_created_event self tid cd w3 = (True, w4)"
    by blast
  have t2: "tid \<noteq> []" using created_row[OF s2] uuid_str_nonempty by simp
  have t3: "cd \<noteq> []" using get_customer_details_Some[OF s3] customer_dict_nonempty by auto
  show "fst (create_touchpoints_for_customer self w) = Inr True"
    by (simp add: workflow_stage4[OF s1 t1 s2 t2 s3 t3 s4])
qed

subsection \<open>The history of a run\<close>

lemma history_step:
  assumes a: "trace w1 = trace w @ new_effects w w1"
      and b: "trace w2 = trace w1 @ new_effects w1 w2"
  shows "trace w2 = trace w @ new_effects w w2"
    and "stages_entered (new_effects w w2) =
           stages_entered (new_effects w w1) @ stages_entered (new_effects w1 w2)"
    and "length (filter is_connection (new_effects w w2)) =
           length (filter is_connection (new_effects w w1)) +
           length (filter is_connection (new_effects w1 w2))"
proof -
  have e: "new_effects w w2 = new_effects w w1 @ new_effects w1 w2"
    by (rule new_effects_trans[OF a b, THEN conjunct1])
  show "trace w2 = trace w @ new_effects w w2"
    by (rule new_effects_trans[OF a b, THEN conjunct2])
  show "stages_entered (new_effects w w2) =
           stages_entered (new_effects w w1) @ stages_entered (new_effects w1 w2)"
    by (simp only: e stages_entered_append)
  show "length (filter is_connection (new_effects w w2)) =
           length (filter is_connection (new_effects w w1)) +
           length (filter is_connection (new_effects w1 w2))"
    by (simp only: e filter_append length_append)
qed

lemma history_after_stage1:
  assumes "get_customer_id self name (started self w) = (r1, w1)"
  shows "trace w1 = trace w @ new_effects w w1"
    and "stages_entered (new_effects w w1) = [ResolveCustomer]"
    and "length (filter is_connection (new_effects w w1)) = 1"
  using get_customer_id_frame[OF assms] stage_connects_once(1)[OF assms] by simp_all

lemma history_after_stage2:
  assumes "get_customer_id self name (started self w) = (r1, w1)"
      and "create_touchpoints_record self cid w1 = (r2, w2)"
  shows "trace w2 = trace w @ new_effects w w2"
    and "stages_entered (new_effects w w2) = [ResolveCustomer, CreateRecord]"
    and "length (filter is_connection (new_effects w w2)) = 2"
proof -
  note h = history_after_stage1[OF assms(1)]
  have b: "trace w2 = trace w1 @ new_effects w1 w2"
    and s: "stages_entered (new_effects w1 w2) = [CreateRecord]"
    using create_touchpoints_record_frame[OF assms(2)] by blast+
  note c = stage_connects_once(2)[OF assms(2)]
  note st = history_step[OF h(1) b]
  show "trace w2 = trace w @ new_effects w w2" by (rule st(1))
  show "stages_entered (new_effects w w2) = [ResolveCustomer, CreateRecord]"
    by (simp only: st(2) h(2) s append.simps)
  show "length (filter is_connection (new_effects w w2)) = 2"
    by (simp only: st(3) h(3) c one_add_one)
qed

lemma history_after_stage3:
  assumes "get_customer_id self name (started self w) = (r1, w1)"
      and "create_touchpoints_record self cid w1 = (r2, w2)"
      and "get_customer_details self cid' w2 = (r3, w3)"
  shows "trace w3 = trace w @ new_effects w w3"
    and "stages_entered (new_effects w w3) = [ResolveCustomer, CreateRecord, FetchSnapshot]"
    and "length (filter is_connection (new_effects w w3)) = 3"
proof -
  note h = history_after_stage2[OF assms(1,2)]
  have b: "trace w3 = trace w2 @ new_effects w2 w3"
    and s: "stages_entered (new_effects w2 w3) = [FetchSnapshot]"
    using get_customer_details_frame[OF assms(3)] by blast+
  note c = stage_connects_once(3)[OF assms(3)]
  note st = history_step[OF h(1) b]
  show "trace w3 = trace w @ new_effects w w3" by (rule st(1))
  show "stages_entered (new_effects w w3) = [ResolveCustomer, CreateRecord, FetchSnapshot]"
    by (simp only: st(2) h(2) s append.simps)
  show "length (filter is_connection (new_effects w w3)) = 3"
    unfolding st(3) h(3) c by simp
qed

lemma history_after_stage4:
  assumes "get_customer_id self name (started self w) = (r1, w1)"
      and "create_touchpoints_record self cid w1 = (r2, w2)"
      and "get_customer_details self cid' w2 = (r3, w3)"
      and "publish_touchpoints_created_event self tid cd w3 = (ok, w4)"
  shows "trace w4 = trace w @ new_effects w w4"
    and "stages_entered (new_effects w w4) = all_stages"
    and "length (filter is_connection (new_effects w w4)) = 4"
proof -
  note h = history_after_stage3[OF assms(1,2,3)]
  have b: "trace w4 = trace w3 @ new_effects w3 w4"
    and s: "stages_entered (new_effects w3 w4) = [PublishEvent]"
    using publish_frame[OF assms(4)] by blast+
  note c = stage_connects_once(4)[OF assms(4)]
  note st = history_step[OF h(1) b]
  show "trace w4 = trace w @ new_effects w w4" by (rule st(1))
  show "stages_entered (new_effects w w4) = all_stages"
    by (simp only: st(2) h(2) s append.simps all_stages_def)
  show "length (filter is_connection (new_effects w w4)) = 4"
    unfolding st(3) h(3) c by simp
qed

lemma workflow_history:
  "trace (snd (create_touchpoints_for_customer self w)) =
     trace w @ new_effects w (snd (create_touchpoints_for_customer self w))
   \<and> (\<exists>k. 1 \<le> k \<and> k \<le> 4
          \<and> stages_entered (new_effects w (snd (create_touchpoints_for_customer self w))) =
              take k all_stages
          \<and> length (filter is_connection
                       (new_effects w (snd (create_touchpoints_for_customer self w)))) = k)"
proof (cases self w rule: workflow_cases)
  case (raise1 a w1)
  from history_after_stage1[OF raise1(1)] show ?thesis
    unfolding raise1(2) by (intro conjI exI[of _ 1]) (simp_all add: all_stages_def)
next
  case (fail1 cid w1)
  from history_after_stage1[OF fail1(1)] show ?thesis
    unfolding fail1(3) by (intro conjI exI[of _ 1]) (simp_all add: all_stages_def)
next
  case (raise2 cid w1 a w2)
  from history_after_stage2[OF raise2(1,3)] show ?thesis
    unfolding raise2(4) by (intro conjI exI[of _ 2]) (simp_all add: all_stages_def)
next
  case (fail2 cid w1 tid w2)
  from history_after_stage2[OF fail2(1,3)] show ?thesis
    unfolding fail2(5) by (intro conjI exI[of _ 2]) (simp_all add: all_stages_def)
next
  case (raise3 cid w1 tid w2 a w3)
  from history_after_stage3[OF raise3(1,3,5)] show ?thesis
    unfolding raise3(6) by (intro conjI exI[of _ 3]) (simp_all add: all_stages_def)
next
  case (fail3 cid w1 tid w2 cd w3)
  from history_after_stage3[OF fail3(1,3,5)] show ?thesis
    unfolding fail3(7) by (intro conjI exI[of _ 3]) (simp_all add: all_stages_def)
next
  case (stage4 cid w1 tid w2 cd w3 ok w4)
  from history_after_stage4[OF stage4(1,3,5,7)] show ?thesis
    unfolding stage4(8) by (intro conjI exI[of _ 4]) (simp_all add: all_stages_def)
qed

subsection \<open>Runs without faults\<close>

lemma first_stage:
  assumes l: "lookup_fault w = None"
      and r: "find (\<lambda>r. sql_eq w (c_name r) (opt_val (customer_name self))) (customers w) = Some r"
  shows "\<exists>w1. get_customer_id self (opt_val (customer_name self)) (started self w) =
                (Inr (c_id r), w1)
            \<and> unchanged_inputs w w1 \<and> same_random w w1"
proof -
  obtain res w1 where
    s1: "get_customer_id self (opt_val (customer_name self)) (started self w) = (res, w1)"
    by (cases "get_customer_id self (opt_val (customer_name self)) (started self w)")
  have "res = Inr (c_id r)"
    using s1 l r by (simp add: get_customer_id_found[of _ _ r])
  with s1 get_customer_id_frame[OF s1] show ?thesis by simp
qed

lemma first_two_stages:
  assumes l: "lookup_fault w = None"
      and r: "find (\<lambda>r. sql_eq w (c_name r) (opt_val (customer_name self))) (customers w) = Some r"
      and i: "insert_fault w = None"
  shows "\<exists>w1 w2. get_customer_id self (opt_val (customer_name self)) (started self w) =
                   (Inr (c_id r), w1)
            \<and> create_touchpoints_record self (c_id r) w1 =
                (Inr (Some (uuid_str (uuid4 (urandom w)))), w2)
            \<and> unchanged_inputs w w2"
proof -
  from first_stage[OF l r] obtain w1 where
    s1: "get_customer_id self (opt_val (customer_name self)) (started self w) = (Inr (c_id r), w1)"
    and u1: "unchanged_inputs w w1" and r1: "same_random w w1" by blast
  have i1: "insert_fault w1 = None" "urandom w1 = urandom w"
    using u1 r1 i by (simp_all add: unchanged_inputs_def same_random_def)
  obtain res w2 where s2: "create_touchpoints_record self (c_id r) w1 = (res, w2)"
    by (cases "create_touchpoints_record self (c_id r) w1")
  have "res = Inr (Some (uuid_str (uuid4 (urandom w))))"
    using s2 by (simp add: create_touchpoints_record_ok[OF i1(1)] i1(2))
  moreover have "unchanged_inputs w w2"
    using u1 create_touchpoints_record_frame[OF s2] by (blast intro: unchanged_inputs_trans)
  ultimately show ?thesis using s1 s2 by blast
qed

text \<open>The first three stages when nothing fails.\<close>

lemma first_three_stages:
  assumes l: "lookup_fault w = None"
      and r: "find (\<lambda>r. sql_eq w (c_name r) (opt_val (customer_name self))) (customers w) = Some r"
      and i: "insert_fault w = None"
      and d: "details_fault w = None"
  shows "\<exists>w1 w2 w3.
           get_customer_id self (opt_val (customer_name self)) (started self w) = (Inr (c_id r), w1)
         \<and> create_touchpoints_record self (c_id r) w1 =
             (Inr (Some (uuid_str (uuid4 (urandom w)))), w2)
         \<and> get_customer_details self (c_id r) w2 =
             (Inr (map_option customer_dict
                     (find (\<lambda>r'. sql_eq w (c_id r') (c_id r)) (customers w))), w3)
         \<and> unchanged_inputs w w3
         \<and> touchpoints w3 =
             touchpoints w @ [new_touchpoints_row (uuid_str (uuid4 (urandom w))) (c_id r)]
         \<and> bus w3 = bus w
         \<and> trace w3 = trace w @
             [Enter ResolveCustomer, DbConnect (db_config self),
              DbExecute (SelectCustomerByName (opt_val (customer_name self))),
              Enter CreateRecord, DbConnect (db_config self),
              DbExecute (InsertTouchpoints (uuid_str (uuid4 (urandom w))) (c_id r)), DbCommit,
              Enter FetchSnapshot, DbConnect (db_config self),
              DbExecute (SelectCustomerById (c_id r))]"
proof -
  let ?name = "opt_val (customer_name self)"
  let ?tid = "uuid_str (uuid4 (urandom w))"
  define w1 where
    "w1 = (started self w)\<lparr>trace := trace (started self w) @
                   [Enter ResolveCustomer, DbConnect (db_config self),
                    DbExecute (SelectCustomerByName ?name)],
              logged := logged (started self w) @
                [(INFO, [Lit ''Found customer: '', Val (c_name r), Lit '' (ID: '', Val (c_id r),
                         Lit '', Tier: '', Val (c_subscription_tier r), Lit '')''])]\<rparr>"
  have s1: "get_customer_id self ?name (started self w) = (Inr (c_id r), w1)"
    unfolding w1_def using l r by (intro get_customer_id_found) simp_all
  have f1: "unchanged_inputs w w1" "touchpoints w1 = touchpoints w" "bus w1 = bus w"
      "trace w1 = trace w @ [Enter ResolveCustomer, DbConnect (db_config self),
                             DbExecute (SelectCustomerByName ?name)]"
    by (simp_all add: w1_def unchanged_inputs_def started_def logger_info_def)
  have i1: "insert_fault w1 = None" "urandom w1 = urandom w"
    using f1(1) i by (simp_all add: unchanged_inputs_def) (simp add: w1_def)
  define w2 where
    "w2 = w1\<lparr>trace := trace w1 @ [Enter CreateRecord, DbConnect (db_config self),
                   DbExecute (InsertTouchpoints ?tid (c_id r)), DbCommit],
              logged := logged w1 @
                [(INFO, [Lit ''Created touchpoints record '', Lit ?tid,
                         Lit '' for customer '', Val (c_id r)])],
              touchpoints := touchpoints w1 @ [new_touchpoints_row ?tid (c_id r)],
              urandom := urandom_later w1 0,
              urandom_later := (\<lambda>n. urandom_later w1 (Suc n))\<rparr>"
  have s2: "create_touchpoints_record self (c_id r) w1 = (Inr (Some ?tid), w2)"
    unfolding w2_def by (simp add: create_touchpoints_record_ok[OF i1(1)] i1(2))
  have f2: "unchanged_inputs w1 w2" "bus w2 = bus w1"
      "touchpoints w2 = touchpoints w1 @ [new_touchpoints_row ?tid (c_id r)]"
      "trace w2 = trace w1 @ [Enter CreateRecord, DbConnect (db_config self),
                              DbExecute (InsertTouchpoints ?tid (c_id r)), DbCommit]"
    by (simp_all add: w2_def unchanged_inputs_def)
  have u2: "unchanged_inputs w w2"
    using f1(1) f2(1) by (rule unchanged_inputs_trans)
  then have d2: "details_fault w2 = None" "sql_eq w2 = sql_eq w" "customers w2 = customers w"
    using d by (simp_all add: unchanged_inputs_def)
  define w3 where
    "w3 = w2\<lparr>trace := trace w2 @ [Enter FetchSnapshot, DbConnect (db_config self),
                                     DbExecute (SelectCustomerById (c_id r))]\<rparr>"
  have s3: "get_customer_details self (c_id r) w2 =
             (Inr (map_option customer_dict
                     (find (\<lambda>r'. sql_eq w (c_id r') (c_id r)) (customers w))), w3)"
    unfolding w3_def by (simp add: get_customer_details_ok[OF d2(1)] d2)
  have f3: "unchanged_inputs w2 w3" "bus w3 = bus w2" "touchpoints w3 = touchpoints w2"
      "trace w3 = trace w2 @ [Enter FetchSnapshot, DbConnect (db_config self),
                              DbExecute (SelectCustomerById (c_id r))]"
    by (simp_all add: w3_def unchanged_inputs_def)
  have "unchanged_inputs w w3"
    using u2 f3(1) by (rule unchanged_inputs_trans)
  with s1 s2 s3 f1 f2 f3 show ?thesis
    by (intro exI[of _ w1] exI[of _ w2] exI[of _ w3]) simp
qed

lemma successful_run:
  assumes l: "lookup_fault w = None"
      and r: "find (\<lambda>r. sql_eq w (c_name r) (opt_val (customer_name self))) (customers w) = Some r"
      and t: "truthy (c_id r)"
      and i: "insert_fault w = None"
      and d: "details_fault w = None"
      and r': "find (\<lambda>r'. sql_eq w (c_id r') (c_id r)) (customers w) = Some r'"
      and p: "publish_fault w = None"
  shows "fst (create_touchpoints_for_customer self w) = Inr True
       \<and> touchpoints (snd (create_touchpoints_for_customer self w)) =
           touchpoints w @ [new_touchpoints_row (uuid_str (uuid4 (urandom w))) (c_id r)]
       \<and> bus (snd (create_touchpoints_for_customer self w)) =
           bus w @ [(nats_subject self,
                     event_payload (utcnow w) (uuid_str (uuid4 (urandom w))) (customer_dict r'))]
       \<and> stages_entered (new_effects w (snd (create_touchpoints_for_customer self w))) =
           all_stages"
proof -
  let ?name = "opt_val (customer_name self)"
  let ?tid = "uuid_str (uuid4 (urandom w))"
  from first_three_stages[OF l r i d] r'
  obtain w1 w2 w3 where
        s1: "get_customer_id self ?name (started self w) = (Inr (c_id r), w1)"
    and s2: "create_touchpoints_record self (c_id r) w1 = (Inr (Some ?tid), w2)"
    and s3: "get_customer_details self (c_id r) w2 = (Inr (Some (customer_dict r')), w3)"
    and u3: "unchanged_inputs w w3"
    and t3: "touchpoints w3 = touchpoints w @ [new_touchpoints_row ?tid (c_id r)]"
    and b3: "bus w3 = bus w"
    and tr3: "trace w3 = trace w @
             [Enter ResolveCustomer, DbConnect (db_config self),
              DbExecute (SelectCustomerByName ?name),
              Enter CreateRecord, DbConnect (db_config self),
              DbExecute (InsertTouchpoints ?tid (c_id r)), DbCommit,
              Enter FetchSnapshot, DbConnect (db_config self),
              DbExecute (SelectCustomerById (c_id r))]"
    by auto
  have p3: "publish_fault w3 = None" "utcnow w3 = utcnow w"
    using u3 p by (simp_all add: unchanged_inputs_def)
  note s4 = publish_ok[OF p3(1), of self ?tid "customer_dict r'"]
  show ?thesis
    unfolding workflow_stage4[OF s1 t s2 uuid_str_nonempty s3 customer_dict_nonempty s4]
    by (simp add: t3 b3 tr3 p3 new_effects_def all_stages_def)
qed

subsection \<open>The concrete worlds\<close>

lemma example_creator_name:
  "opt_val (customer_name example_creator) = PStr ''Example Tech Solutions''"
  by (simp add: example_creator_def opt_val_def)

lemma quiet_world_facts:
  "lookup_fault quiet_world = None" "insert_fault quiet_world = None"
  "details_fault quiet_world = None" "publish_fault quiet_world = None"
  "find (\<lambda>r. sql_eq quiet_world (c_name r) (opt_val (customer_name example_creator)))
     (customers quiet_world) = Some example_customer"
  "find (\<lambda>r'. sql_eq quiet_world (c_id r') (c_id example_customer)) (customers quiet_world) =
     Some example_customer"
  "truthy (c_id example_customer)"
  "touchpoints quiet_world = []" "bus quiet_world = []" "trace quiet_world = []"
  "urandom quiet_world = 0" "utcnow quiet_world = example_now"
  by (simp_all add: quiet_world_def example_customer_def example_creator_name)

lemma quiet_run:
  "fst (create_touchpoints_for_customer example_creator quiet_world) = Inr True"
  "touchpoints (snd (create_touchpoints_for_customer example_creator quiet_world)) =
     [new_touchpoints_row ''00000000-0000-4000-8000-000000000000'' (PStr ''c-001'')]"
  "bus (snd (create_touchpoints_for_customer example_creator quiet_world)) =
     [(''touchpoints-created'',
       event_payload example_now ''00000000-0000-4000-8000-000000000000''
         (customer_dict example_customer))]"
  "stages_entered (trace (snd (create_touchpoints_for_customer example_creator quiet_world))) =
     all_stages"
  using successful_run[of quiet_world example_creator, OF quiet_world_facts(1,5,7,2,3,6,4)]
  by (simp_all add: quiet_world_facts(8-12) uuid_str_zero new_effects_def)
     (simp_all add: example_customer_def example_creator_def)

lemma world_facts:
  "lookup_fault unknown_customer_world = None"
  "find (\<lambda>r. sql_eq unknown_customer_world (c_name r) (opt_val (customer_name example_creator)))
     (customers unknown_customer_world) = None"
  "trace unknown_customer_world = []"
  "lookup_fault insert_fails_world = None"
  "find (\<lambda>r. sql_eq insert_fails_world (c_name r) (opt_val (customer_name example_creator)))
     (customers insert_fails_world) = Some example_customer"
  "insert_fault insert_fails_world = Some (WriteExecute MysqlError Closed)"
  "trace insert_fails_world = []"
  "lookup_fault details_fail_world = None"
  "find (\<lambda>r. sql_eq details_fail_world (c_name r) (opt_val (customer_name example_creator)))
     (customers details_fail_world) = Some example_customer"
  "insert_fault details_fail_world = None"
  "details_fault details_fail_world = Some (ReadConnect MysqlError)"
  "trace details_fail_world = []"
  "lookup_fault bus_down_world = None"
  "find (\<lambda>r. sql_eq bus_down_world (c_name r) (opt_val (customer_name example_creator)))
     (customers bus_down_world) = Some example_customer"
  "insert_fault bus_down_world = None"
  "details_fault bus_down_world = None"
  "find (\<lambda>r'. sql_eq bus_down_world (c_id r') (c_id example_customer))
     (customers bus_down_world) = Some example_customer"
  "publish_fault bus_down_world = Some (AtBusConnect, OtherException)"
  "trace bus_down_world = []"
  by (simp_all add: unknown_customer_world_def insert_fails_world_def details_fail_world_def
        bus_down_world_def quiet_world_def example_customer_def example_creator_name)

lemma no_customer_unresolved:
  "fst (create_touchpoints_for_customer example_creator unknown_customer_world) = Inr False"
proof -
  let ?name = "opt_val (customer_name example_creator)"
  have "lookup_fault (started example_creator unknown_customer_world) = None"
       "find (\<lambda>r. sql_eq (started example_creator unknown_customer_world) (c_name r) ?name)
          (customers (started example_creator unknown_customer_world)) = None"
    by (simp_all add: unknown_customer_world_def quiet_world_def)
  note s1 = get_customer_id_not_found[OF this, of example_creator]
  show ?thesis
    by (simp add: workflow_stage1_fails[OF s1])
qed

lemma bus_down_unpublished:
  "fst (create_touchpoints_for_customer example_creator bus_down_world) = Inr False"
proof -
  let ?name = "opt_val (customer_name example_creator)"
  have f: "lookup_fault bus_down_world = None"
    "find (\<lambda>r. sql_eq bus_down_world (c_name r) ?name) (customers bus_down_world) =
       Some example_customer"
    "insert_fault bus_down_world = None" "details_fault bus_down_world = None"
    "find (\<lambda>r'. sql_eq bus_down_world (c_id r') (c_id example_customer))
       (customers bus_down_world) = Some example_customer"
    "publish_fault bus_down_world = Some (AtBusConnect, OtherException)"
    "truthy (c_id example_customer)"
    by (simp_all add: bus_down_world_def quiet_world_def example_customer_def
          example_creator_name)
  from first_three_stages[OF f(1,2,3,4)] f(5) obtain w1 w2 w3 where
    s1: "get_customer_id example_creator ?name (started example_creator bus_down_world) =
           (Inr (c_id example_customer), w1)"
    and s2: "create_touchpoints_record example_creator (c_id example_customer) w1 =
           (Inr (Some (uuid_str (uuid4 (urandom bus_down_world)))), w2)"
    and s3: "get_customer_details example_creator (c_id example_customer) w2 =
           (Inr (Some (customer_dict example_customer)), w3)"
    and u: "unchanged_inputs bus_down_world w3"
    by auto
  obtain ok w4 where
    s4: "publish_touchpoints_created_event example_creator
           (uuid_str (uuid4 (urandom bus_down_world))) (customer_dict example_customer) w3 =
         (ok, w4)"
    by (cases "publish_touchpoints_created_event example_creator
           (uuid_str (uuid4 (urandom bus_down_world))) (customer_dict example_customer) w3")
  have "publish_fault w3 = Some (AtBusConnect, OtherException)"
    using u f(6) by (simp add: unchanged_inputs_def)
  from publish_fails[OF this, of example_creator] s4 have "ok = False"
    by (metis fst_conv)
  with workflow_stage4[OF s1 f(7) s2 uuid_str_nonempty s3 customer_dict_nonempty s4]
  show ?thesis by simp
qed

section \<open>Stage 1 yields no identifier\<close>

text \<open>
  Whenever stage 1 ends without a truthy identifier, whether it returns a falsy value or
  raises, the workflow ends there: the \<open>touchpoints\<close> table and the bus are as before,
  only stage 1 was entered, no statement on the \<open>touchpoints\<close> table was sent and no
  call went to the bus. The workflow returns \<open>False\<close> when the stage returned, and is
  left by the stage's exception when the stage raised.
\<close>

lemma without_identifier_no_side_effect:
  assumes s1: "get_customer_id self (opt_val (customer_name self)) (started self w) = (res, w1)"
      and no: "\<And>cid. res = Inr cid \<Longrightarrow> \<not> truthy cid"
  shows "fst (create_touchpoints_for_customer self w) =
           (case res of Inl a \<Rightarrow> Inl a | Inr cid \<Rightarrow> Inr False)
       \<and> touchpoints (snd (create_touchpoints_for_customer self w)) = touchpoints w
       \<and> bus (snd (create_touchpoints_for_customer self w)) = bus w
       \<and> stages_entered (new_effects w (snd (create_touchpoints_for_customer self w))) =
           [ResolveCustomer]
       \<and> filter on_touchpoints
           (statements (new_effects w (snd (create_touchpoints_for_customer self w)))) = []
       \<and> filter is_bus_call (new_effects w (snd (create_touchpoints_for_customer self w))) = []"
proof (cases res)
  case (Inl a)
  with s1 have "create_touchpoints_for_customer self w = (Inl a, w1)"
    by (intro workflow_stage1_raises) simp
  with get_customer_id_frame[OF s1] Inl show ?thesis by simp
next
  case (Inr cid)
  with s1 no have "create_touchpoints_for_customer self w =
           (Inr False, logger_error [Lit ''Failed to find customer''] w1)"
    by (intro workflow_stage1_fails) simp_all
  with get_customer_id_frame[OF s1] Inr show ?thesis by simp
qed

text \<open>
  The workflow returns \<open>False\<close> when no row matches the name, and when the connector
  raises its error at \<open>connect\<close>, or at a later call after which the clean-up raises
  nothing (at \<open>cursor\<close> this requires that the connection is no longer connected).
\<close>

lemma no_customer_returns_failure:
  assumes "(lookup_fault w = None \<and>
            find (\<lambda>r. sql_eq w (c_name r) (opt_val (customer_name self))) (customers w) = None)
           \<or> lookup_fault w = Some (ReadConnect MysqlError)
           \<or> (\<exists>c. lookup_fault w = Some (ReadCursor MysqlError c) \<and> clean_up False c = None)
           \<or> (\<exists>c. lookup_fault w = Some (ReadExecute MysqlError c) \<and> clean_up True c = None)"
  shows "fst (create_touchpoints_for_customer self w) = Inr False
       \<and> touchpoints (snd (create_touchpoints_for_customer self w)) = touchpoints w
       \<and> bus (snd (create_touchpoints_for_customer self w)) = bus w
       \<and> stages_entered (new_effects w (snd (create_touchpoints_for_customer self w))) =
           [ResolveCustomer]"
proof -
  let ?name = "opt_val (customer_name self)"
  have "\<exists>w1. get_customer_id self ?name (started self w) = (Inr PNone, w1)"
    using assms
  proof (elim disjE)
    assume "lookup_fault w = None \<and> find (\<lambda>r. sql_eq w (c_name r) ?name) (customers w) = None"
    then show ?thesis
      using get_customer_id_not_found[of "started self w" ?name self] by simp
  next
    assume "lookup_fault w = Some (ReadConnect MysqlError)"
    then show ?thesis
      by (intro get_customer_id_error[of _ "ReadConnect MysqlError"]) simp_all
  next
    assume "\<exists>c. lookup_fault w = Some (ReadCursor MysqlError c) \<and> clean_up False c = None"
    then obtain c where "lookup_fault (started self w) = Some (ReadCursor MysqlError c)"
        "clean_up False c = None" by auto
    then show ?thesis
      by (intro get_customer_id_error[of _ "ReadCursor MysqlError c"]) simp_all
  next
    assume "\<exists>c. lookup_fault w = Some (ReadExecute MysqlError c) \<and> clean_up True c = None"
    then obtain c where "lookup_fault (started self w) = Some (ReadExecute MysqlError c)"
        "clean_up True c = None" by auto
    then show ?thesis
      by (intro get_customer_id_error[of _ "ReadExecute MysqlError c"]) simp_all
  qed
  then obtain w1 where s1: "get_customer_id self ?name (started self w) = (Inr PNone, w1)"
    by blast
  from without_identifier_no_side_effect[OF s1] show ?thesis by simp
qed

text \<open>
  C1. The claim fails on one path of the lookup. In the world \<open>cursor_fails_world\<close> the
  datastore accepts the connection, \<open>connection.cursor()\<close> raises the connector's
  error and the connection stays up. The handler logs the error and is about to return
  \<open>None\<close>, but the clean-up then calls \<open>cursor.close()\<close> on the name \<open>cursor\<close>, which
  was never bound: \<open>UnboundLocalError\<close> leaves \<open>get_customer_id\<close> and the workflow,
  which therefore does not return \<open>False\<close>; \<open>main\<close> reports an unexpected error and
  exits with status 1. No insert and no publish was attempted: the table and the bus
  are empty as before and only stage 1 was entered.
\<close>

theorem lookup_error_escapes:
  "lookup_fault cursor_fails_world = Some (ReadCursor MysqlError Closed)
   \<and> fst (get_customer_id example_creator (PStr ''Example Tech Solutions'')
            (started example_creator cursor_fails_world)) = Inl (Raised UnboundLocalError)
   \<and> fst (create_touchpoints_for_customer example_creator cursor_fails_world) =
       Inl (Raised UnboundLocalError)
   \<and> logged (snd (create_touchpoints_for_customer example_creator cursor_fails_world)) =
       [(INFO, [Lit ''Creating touchpoints for customer: '', Val (PStr ''Example Tech Solutions'')]),
        (ERROR, [Lit ''Database error while looking up customer: '', Exc MysqlError])]
   \<and> touchpoints (snd (create_touchpoints_for_customer example_creator cursor_fails_world)) = []
   \<and> bus (snd (create_touchpoints_for_customer example_creator cursor_fails_world)) = []
   \<and> trace (snd (create_touchpoints_for_customer example_creator cursor_fails_world)) =
       [Enter ResolveCustomer, DbConnect (db_config example_creator)]
   \<and> fst (main cursor_fails_world) = Inl (SysExit 1)
   \<and> last (logged (snd (main cursor_fails_world))) =
       (ERROR, [Lit ''Unexpected error: '', Exc UnboundLocalError])"
proof -
  let ?name = "opt_val (customer_name example_creator)"
  let ?w0 = "started example_creator cursor_fails_world"
  have f: "lookup_fault cursor_fails_world = Some (ReadCursor MysqlError Closed)"
      "touchpoints cursor_fails_world = []" "bus cursor_fails_world = []"
      "trace cursor_fails_world = []" "logged cursor_fails_world = []"
      "environ cursor_fails_world = full_environ"
    by (simp_all add: cursor_fails_world_def quiet_world_def)
  have l: "lookup_fault ?w0 = Some (ReadCursor MysqlError Closed)"
    by (simp add: f)
  have s1: "get_customer_id example_creator ?name ?w0 =
           (Inl (Raised UnboundLocalError),
            logger_error [Lit ''Database error while looking up customer: '', Exc MysqlError]
              (emit (DbConnect (db_config example_creator)) (emit (Enter ResolveCustomer) ?w0)))"
    using get_customer_id_cursor_unbound[OF l disjI1[OF refl], of example_creator ?name] by simp
  note run = workflow_stage1_raises[OF s1]
  have i: "TouchpointsCreator_init cursor_fails_world = (Inr example_creator, cursor_fails_world)"
    by (rule init_full_environ) (rule f(6))
  have m: "main cursor_fails_world =
           (Inl (SysExit 1),
            logger_error [Lit ''Unexpected error: '', Exc UnboundLocalError]
              (snd (create_touchpoints_for_customer example_creator cursor_fails_world)))"
    by (simp add: main_def i run)
  have g: "fst (get_customer_id example_creator (PStr ''Example Tech Solutions'') ?w0) =
             Inl (Raised UnboundLocalError)"
    using s1 by (simp add: example_creator_name)
  have r: "fst (create_touchpoints_for_customer example_creator cursor_fails_world) =
             Inl (Raised UnboundLocalError)"
      "logged (snd (create_touchpoints_for_customer example_creator cursor_fails_world)) =
       [(INFO, [Lit ''Creating touchpoints for customer: '', Val (PStr ''Example Tech Solutions'')]),
        (ERROR, [Lit ''Database error while looking up customer: '', Exc MysqlError])]"
      "touchpoints (snd (create_touchpoints_for_customer example_creator cursor_fails_world)) = []"
      "bus (snd (create_touchpoints_for_customer example_creator cursor_fails_world)) = []"
      "trace (snd (create_touchpoints_for_customer example_creator cursor_fails_world)) =
       [Enter ResolveCustomer, DbConnect (db_config example_creator)]"
    by (simp_all add: run f emit_def logger_error_def started_def logger_info_def
          example_creator_name)
  have e: "fst (main cursor_fails_world) = Inl (SysExit 1)"
      "last (logged (snd (main cursor_fails_world))) =
       (ERROR, [Lit ''Unexpected error: '', Exc UnboundLocalError])"
    by (simp_all add: m logger_error_def)
  from f(1) g r e show ?thesis by simp
qed

text \<open>
  C10. When a row matches the name and its identifier is falsy (0, the empty string or
  NULL), the workflow treats the lookup as failed: it returns \<open>False\<close> after the line
  \<open>Failed to find customer\<close>, having sent the one \<open>SELECT\<close> only, and the
  \<open>touchpoints\<close> table and the bus are unchanged.
\<close>

theorem falsy_identifier_aborts:
  assumes "lookup_fault w = None"
      and "find (\<lambda>r. sql_eq w (c_name r) (opt_val (customer_name self))) (customers w) = Some r"
      and "\<not> truthy (c_id r)"
  shows "fst (create_touchpoints_for_customer self w) = Inr False
       \<and> touchpoints (snd (create_touchpoints_for_customer self w)) = touchpoints w
       \<and> bus (snd (create_touchpoints_for_customer self w)) = bus w
       \<and> new_effects w (snd (create_touchpoints_for_customer self w)) =
           [Enter ResolveCustomer, DbConnect (db_config self),
            DbExecute (SelectCustomerByName (opt_val (customer_name self)))]
       \<and> last (logged (snd (create_touchpoints_for_customer self w))) =
           (ERROR, [Lit ''Failed to find customer''])"
proof -
  let ?name = "opt_val (customer_name self)"
  have s1: "get_customer_id self ?name (started self w) =
           (Inr (c_id r),
            (started self w)\<lparr>trace := trace (started self w) @
                   [Enter ResolveCustomer, DbConnect (db_config self),
                    DbExecute (SelectCustomerByName ?name)],
              logged := logged (started self w) @
                [(INFO, [Lit ''Found customer: '', Val (c_name r), Lit '' (ID: '', Val (c_id r),
                         Lit '', Tier: '', Val (c_subscription_tier r), Lit '')''])]\<rparr>)"
    using assms by (intro get_customer_id_found) simp_all
  show ?thesis
    unfolding workflow_stage1_fails[OF s1 assms(3)]
    by (simp add: new_effects_def logger_error_def)
qed

text \<open>The theorem at a datastore whose matching row has the identifier 0.\<close>

theorem falsy_identifier_aborts_witness:
  "lookup_fault zero_id_world = None
   \<and> find (\<lambda>r. sql_eq zero_id_world (c_name r) (PStr ''Example Tech Solutions''))
        (customers zero_id_world) = Some (example_customer\<lparr>c_id := PInt 0\<rparr>)
   \<and> \<not> truthy (PInt 0)
   \<and> fst (create_touchpoints_for_customer example_creator zero_id_world) = Inr False
   \<and> touchpoints (snd (create_touchpoints_for_customer example_creator zero_id_world)) = []
   \<and> statements (trace (snd (create_touchpoints_for_customer example_creator zero_id_world))) =
       [SelectCustomerByName (PStr ''Example Tech Solutions'')]"
proof -
  have h: "lookup_fault zero_id_world = None"
      "find (\<lambda>r. sql_eq zero_id_world (c_name r) (opt_val (customer_name example_creator)))
        (customers zero_id_world) = Some (example_customer\<lparr>c_id := PInt 0\<rparr>)"
      "\<not> truthy (c_id (example_customer\<lparr>c_id := PInt 0\<rparr>))"
    by (simp_all add: zero_id_world_def quiet_world_def example_customer_def example_creator_name)
  have e: "touchpoints zero_id_world = []" "trace zero_id_world = []"
    by (simp_all add: zero_id_world_def quiet_world_def)
  show ?thesis
    using falsy_identifier_aborts[OF h] h e
    by (simp add: new_effects_def example_creator_name)
qed

section \<open>The order of the stages\<close>

text \<open>
  C3. In every run the stages entered are the first \<open>k\<close> of resolve, create, fetch,
  publish, in that order, for some \<open>k\<close> from 1 to 4, each entered once and each making
  one connection attempt. When a stage's result is falsy (stage 1: a falsy identifier;
  stage 2: no identifier; stage 3: no snapshot; stage 4: \<open>False\<close>), the workflow returns
  \<open>False\<close> with the history exactly as that stage left it, so no later stage runs and
  none is run again; when all four results are truthy it returns \<open>True\<close>.
\<close>

theorem stages_in_strict_sequence:
  "trace (snd (create_touchpoints_for_customer self w)) =
     trace w @ new_effects w (snd (create_touchpoints_for_customer self w))
   \<and> (\<exists>k. 1 \<le> k \<and> k \<le> 4
          \<and> stages_entered (new_effects w (snd (create_touchpoints_for_customer self w))) =
              take k all_stages
          \<and> length (filter is_connection
                       (new_effects w (snd (create_touchpoints_for_customer self w)))) = k)
   \<and> (get_customer_id self (opt_val (customer_name self)) (started self w) = (Inr cid, w1)
        \<and> \<not> truthy cid
      \<longrightarrow> fst (create_touchpoints_for_customer self w) = Inr False
        \<and> trace (snd (create_touchpoints_for_customer self w)) = trace w1
        \<and> stages_entered (new_effects w (snd (create_touchpoints_for_customer self w))) =
            [ResolveCustomer])
   \<and> (get_customer_id self (opt_val (customer_name self)) (started self w) = (Inr cid, w1)
        \<and> truthy cid
        \<and> create_touchpoints_record self cid w1 = (Inr tid, w2) \<and> \<not> truthy_str tid
      \<longrightarrow> fst (create_touchpoints_for_customer self w) = Inr False
        \<and> trace (snd (create_touchpoints_for_customer self w)) = trace w2
        \<and> stages_entered (new_effects w (snd (create_touchpoints_for_customer self w))) =
            [ResolveCustomer, CreateRecord])
   \<and> (get_customer_id self (opt_val (customer_name self)) (started self w) = (Inr cid, w1)
        \<and> truthy cid
        \<and> create_touchpoints_record self cid w1 = (Inr (Some t), w2)
        \<and> get_customer_details self cid w2 = (Inr cd, w3) \<and> (cd = None \<or> cd = Some [])
      \<longrightarrow> fst (create_touchpoints_for_customer self w) = Inr False
        \<and> trace (snd (create_touchpoints_for_customer self w)) = trace w3
        \<and> stages_entered (new_effects w (snd (create_touchpoints_for_customer self w))) =
            [ResolveCustomer, CreateRecord, FetchSnapshot])
   \<and> (get_customer_id self (opt_val (customer_name self)) (started self w) = (Inr cid, w1)
        \<and> truthy cid
        \<and> create_touchpoints_record self cid w1 = (Inr (Some t), w2)
        \<and> get_customer_details self cid w2 = (Inr (Some d), w3)
        \<and> publish_touchpoints_created_event self t d w3 = (ok, w4)
      \<longrightarrow> fst (create_touchpoints_for_customer self w) = Inr ok
        \<and> trace (snd (create_touchpoints_for_customer self w)) = trace w4
        \<and> stages_entered (new_effects w (snd (create_touchpoints_for_customer self w))) =
            all_stages)"
proof -
  let ?name = "opt_val (customer_name self)"
  let ?run = "create_touchpoints_for_customer self w"
  have c1: "fst ?run = Inr False \<and> trace (snd ?run) = trace w1
            \<and> stages_entered (new_effects w (snd ?run)) = [ResolveCustomer]"
    if s1: "get_customer_id self ?name (started self w) = (Inr cid, w1)" and f: "\<not> truthy cid"
    using history_after_stage1[OF s1] by (simp add: workflow_stage1_fails[OF s1 f])
  have c2: "fst ?run = Inr False \<and> trace (snd ?run) = trace w2
            \<and> stages_entered (new_effects w (snd ?run)) = [ResolveCustomer, CreateRecord]"
    if s1: "get_customer_id self ?name (started self w) = (Inr cid, w1)" and t1: "truthy cid"
      and s2: "create_touchpoints_record self cid w1 = (Inr tid, w2)" and f: "\<not> truthy_str tid"
    using history_after_stage2[OF s1 s2] by (simp add: workflow_stage2_fails[OF s1 t1 s2 f])
  have c3: "fst ?run = Inr False \<and> trace (snd ?run) = trace w3
            \<and> stages_entered (new_effects w (snd ?run)) =
                [ResolveCustomer, CreateRecord, FetchSnapshot]"
    if s1: "get_customer_id self ?name (started self w) = (Inr cid, w1)" and t1: "truthy cid"
      and s2: "create_touchpoints_record self cid w1 = (Inr (Some t), w2)"
      and s3: "get_customer_details self cid w2 = (Inr cd, w3)" and f: "cd = None \<or> cd = Some []"
  proof -
    have t2: "t \<noteq> []" using created_row[OF s2] uuid_str_nonempty by simp
    show ?thesis
      using history_after_stage3[OF s1 s2 s3]
      by (simp add: workflow_stage3_fails[OF s1 t1 s2 t2 s3 f])
  qed
  have c4: "fst ?run = Inr ok \<and> trace (snd ?run) = trace w4
            \<and> stages_entered (new_effects w (snd ?run)) = all_stages"
    if s1: "get_customer_id self ?name (started self w) = (Inr cid, w1)" and t1: "truthy cid"
      and s2: "create_touchpoints_record self cid w1 = (Inr (Some t), w2)"
      and s3: "get_customer_details self cid w2 = (Inr (Some d), w3)"
      and s4: "publish_touchpoints_created_event self t d w3 = (ok, w4)"
  proof -
    have t2: "t \<noteq> []" using created_row[OF s2] uuid_str_nonempty by simp
    have t3: "d \<noteq> []" using get_customer_details_Some[OF s3] customer_dict_nonempty by auto
    show ?thesis
      using history_after_stage4[OF s1 s2 s3 s4]
      by (simp add: workflow_stage4[OF s1 t1 s2 t2 s3 t3 s4])
  qed
  have C1: "get_customer_id self ?name (started self w) = (Inr cid, w1) \<and> \<not> truthy cid
      \<longrightarrow> fst ?run = Inr False \<and> trace (snd ?run) = trace w1
        \<and> stages_entered (new_effects w (snd ?run)) = [ResolveCustomer]"
    using c1 by (intro impI) (elim conjE)
  have C2: "get_customer_id self ?name (started self w) = (Inr cid, w1) \<and> truthy cid
        \<and> create_touchpoints_record self cid w1 = (Inr tid, w2) \<and> \<not> truthy_str tid
      \<longrightarrow> fst ?run = Inr False \<and> trace (snd ?run) = trace w2
        \<and> stages_entered (new_effects w (snd ?run)) = [ResolveCustomer, CreateRecord]"
    using c2 by (intro impI) (elim conjE)
  have C3: "get_customer_id self ?name (started self w) = (Inr cid, w1) \<and> truthy cid
        \<and> create_touchpoints_record self cid w1 = (Inr (Some t), w2)
        \<and> get_customer_details self cid w2 = (Inr cd, w3) \<and> (cd = None \<or> cd = Some [])
      \<longrightarrow> fst ?run = Inr False \<and> trace (snd ?run) = trace w3
        \<and> stages_entered (new_effects w (snd ?run)) =
            [ResolveCustomer, CreateRecord, FetchSnapshot]"
    using c3 by (intro impI) (elim conjE)
  have C4: "get_customer_id self ?name (started self w) = (Inr cid, w1) \<and> truthy cid
        \<and> create_touchpoints_record self cid w1 = (Inr (Some t), w2)
        \<and> get_customer_details self cid w2 = (Inr (Some d), w3)
        \<and> publish_touchpoints_created_event self t d w3 = (ok, w4)
      \<longrightarrow> fst ?run = Inr ok \<and> trace (snd ?run) = trace w4
        \<and> stages_entered (new_effects w (snd ?run)) = all_stages"
    using c4 by (intro impI) (elim conjE)
  from workflow_history[of self w] C1 C2 C3 C4 show ?thesis
    by (elim conjE, intro conjI) assumption+
qed

text \<open>
  The theorem at four worlds, one for each stage at which a run can stop: no customer,
  a failing insert, a failing snapshot query, an unreachable bus.
\<close>

theorem stages_in_strict_sequence_witness:
  "(fst (create_touchpoints_for_customer example_creator unknown_customer_world) = Inr False
    \<and> stages_entered
         (trace (snd (create_touchpoints_for_customer example_creator unknown_customer_world))) =
         [ResolveCustomer])
   \<and> (fst (create_touchpoints_for_customer example_creator insert_fails_world) = Inr False
    \<and> stages_entered
         (trace (snd (create_touchpoints_for_customer example_creator insert_fails_world))) =
         [ResolveCustomer, CreateRecord])
   \<and> (fst (create_touchpoints_for_customer example_creator details_fail_world) = Inr False
    \<and> stages_entered
         (trace (snd (create_touchpoints_for_customer example_creator details_fail_world))) =
         [ResolveCustomer, CreateRecord, FetchSnapshot])
   \<and> (fst (create_touchpoints_for_customer example_creator bus_down_world) = Inr False
    \<and> stages_entered
         (trace (snd (create_touchpoints_for_customer example_creator bus_down_world))) =
         [ResolveCustomer, CreateRecord, FetchSnapshot, PublishEvent])"
proof -
  let ?name = "opt_val (customer_name example_creator)"
  have t: "truthy (c_id example_customer)" "\<not> truthy PNone" "\<not> truthy_str None"
    by (simp_all add: example_customer_def)
  \<comment> \<open>stage 1 fails\<close>
  obtain a1 where
    a1: "get_customer_id example_creator ?name (started example_creator unknown_customer_world) =
           (Inr PNone, a1)"
    using get_customer_id_not_found[of "started example_creator unknown_customer_world" ?name
        example_creator]
    by (simp add: world_facts)
  note ta = stages_in_strict_sequence[where self = example_creator
      and w = unknown_customer_world and cid = PNone and ?w1.0 = a1,
      THEN conjunct2, THEN conjunct2, THEN conjunct1, THEN mp, OF conjI[OF a1 t(2)]]
  from ta[THEN conjunct1] ta[THEN conjunct2, THEN conjunct2]
  have A: "fst (create_touchpoints_for_customer example_creator unknown_customer_world) = Inr False
    \<and> stages_entered
         (trace (snd (create_touchpoints_for_customer example_creator unknown_customer_world))) =
         [ResolveCustomer]"
    by (simp add: new_effects_def world_facts)
  \<comment> \<open>stage 2 fails\<close>
  from first_stage[OF world_facts(4,5)] obtain b1 where
    b1: "get_customer_id example_creator ?name (started example_creator insert_fails_world) =
           (Inr (c_id example_customer), b1)"
    and ub: "unchanged_inputs insert_fails_world b1" by blast
  have "insert_fault b1 = Some (WriteExecute MysqlError Closed)"
    using ub by (simp add: unchanged_inputs_def world_facts)
  from create_touchpoints_record_error[OF this, of example_creator "c_id example_customer"]
  obtain b2 where
    b2: "create_touchpoints_record example_creator (c_id example_customer) b1 = (Inr None, b2)"
    by auto
  note tb = stages_in_strict_sequence[where self = example_creator
      and w = insert_fails_world and cid = "c_id example_customer" and ?w1.0 = b1
      and tid = None and ?w2.0 = b2,
      THEN conjunct2, THEN conjunct2, THEN conjunct2, THEN conjunct1, THEN mp,
      OF conjI[OF b1 conjI[OF t(1) conjI[OF b2 t(3)]]]]
  from tb[THEN conjunct1] tb[THEN conjunct2, THEN conjunct2]
  have B: "fst (create_touchpoints_for_customer example_creator insert_fails_world) = Inr False
    \<and> stages_entered
         (trace (snd (create_touchpoints_for_customer example_creator insert_fails_world))) =
         [ResolveCustomer, CreateRecord]"
    by (simp add: new_effects_def world_facts)
  \<comment> \<open>stage 3 fails\<close>
  from first_two_stages[OF world_facts(8,9,10)] obtain c1 c2 where
    c1: "get_customer_id example_creator ?name (started example_creator details_fail_world) =
           (Inr (c_id example_customer), c1)"
    and c2: "create_touchpoints_record example_creator (c_id example_customer) c1 =
           (Inr (Some (uuid_str (uuid4 (urandom details_fail_world)))), c2)"
    and uc: "unchanged_inputs details_fail_world c2" by blast
  have "details_fault c2 = Some (ReadConnect MysqlError)"
    using uc by (simp add: unchanged_inputs_def world_facts)
  from get_customer_details_error[OF this, of example_creator "c_id example_customer"]
  obtain c3 where
    c3: "get_customer_details example_creator (c_id example_customer) c2 = (Inr None, c3)"
    by auto
  note tc = stages_in_strict_sequence[where self = example_creator
      and w = details_fail_world and cid = "c_id example_customer" and ?w1.0 = c1 and ?w2.0 = c2
      and t = "uuid_str (uuid4 (urandom details_fail_world))" and cd = None and ?w3.0 = c3,
      THEN conjunct2, THEN conjunct2, THEN conjunct2, THEN conjunct2, THEN conjunct1, THEN mp,
      OF conjI[OF c1 conjI[OF t(1) conjI[OF c2 conjI[OF c3 disjI1[OF refl]]]]]]
  from tc[THEN conjunct1] tc[THEN conjunct2, THEN conjunct2]
  have C: "fst (create_touchpoints_for_customer example_creator details_fail_world) = Inr False
    \<and> stages_entered
         (trace (snd (create_touchpoints_for_customer example_creator details_fail_world))) =
         [ResolveCustomer, CreateRecord, FetchSnapshot]"
    by (simp add: new_effects_def world_facts)
  \<comment> \<open>stage 4 fails\<close>
  from first_three_stages[OF world_facts(13,14,15,16)] obtain d1 d2 d3 where
    d1: "get_customer_id example_creator ?name (started example_creator bus_down_world) =
           (Inr (c_id example_customer), d1)"
    and d2: "create_touchpoints_record example_creator (c_id example_customer) d1 =
           (Inr (Some (uuid_str (uuid4 (urandom bus_down_world)))), d2)"
    and d3: "get_customer_details example_creator (c_id example_customer) d2 =
           (Inr (Some (customer_dict example_customer)), d3)"
    and ud: "unchanged_inputs bus_down_world d3"
    by (auto simp: world_facts)
  obtain ok d4 where
    d4: "publish_touchpoints_created_event example_creator
           (uuid_str (uuid4 (urandom bus_down_world))) (customer_dict example_customer) d3 =
         (ok, d4)"
    by (cases "publish_touchpoints_created_event example_creator
           (uuid_str (uuid4 (urandom bus_down_world))) (customer_dict example_customer) d3")
  have "publish_fault d3 = Some (AtBusConnect, OtherException)"
    using ud by (simp add: unchanged_inputs_def world_facts)
  from publish_fails[OF this, of example_creator] d4 have ok: "ok = False"
    by (metis fst_conv)
  note td = stages_in_strict_sequence[where self = example_creator
      and w = bus_down_world and cid = "c_id example_customer" and ?w1.0 = d1 and ?w2.0 = d2
      and t = "uuid_str (uuid4 (urandom bus_down_world))" and ?w3.0 = d3
      and d = "customer_dict example_customer" and ok = ok and ?w4.0 = d4,
      THEN conjunct2, THEN conjunct2, THEN conjunct2, THEN conjunct2, THEN conjunct2, THEN mp,
      OF conjI[OF d1 conjI[OF t(1) conjI[OF d2 conjI[OF d3 d4]]]]]
  from td[THEN conjunct1] td[THEN conjunct2, THEN conjunct2] ok
  have D: "fst (create_touchpoints_for_customer example_creator bus_down_world) = Inr False
    \<and> stages_entered
         (trace (snd (create_touchpoints_for_customer example_creator bus_down_world))) =
         [ResolveCustomer, CreateRecord, FetchSnapshot, PublishEvent]"
    by (simp add: new_effects_def world_facts all_stages_def)
  from A B C D show ?thesis by (intro conjI) simp_all
qed

section \<open>Runs that reach the bus\<close>

text \<open>
  C2. In every run in which the first three stages succeed (so the insert is committed)
  and the bus client raises at \<open>connect\<close>, \<open>publish\<close> or \<open>close\<close>, the workflow returns
  \<open>False\<close>, the \<open>touchpoints\<close> table is the old table plus the inserted row, and the
  one statement the whole run sent on that table is the \<open>INSERT\<close>: nothing deletes or
  rewrites the row afterwards.
\<close>

theorem publish_failure_keeps_record:
  assumes l: "lookup_fault w = None"
      and r: "find (\<lambda>r. sql_eq w (c_name r) (opt_val (customer_name self))) (customers w) = Some r"
      and t: "truthy (c_id r)"
      and i: "insert_fault w = None"
      and d: "details_fault w = None"
      and r': "find (\<lambda>r'. sql_eq w (c_id r') (c_id r)) (customers w) = Some r'"
      and p: "publish_fault w = Some (s, e)"
  shows "fst (create_touchpoints_for_customer self w) = Inr False
       \<and> touchpoints (snd (create_touchpoints_for_customer self w)) =
           touchpoints w @ [new_touchpoints_row (uuid_str (uuid4 (urandom w))) (c_id r)]
       \<and> filter on_touchpoints
           (statements (new_effects w (snd (create_touchpoints_for_customer self w)))) =
           [InsertTouchpoints (uuid_str (uuid4 (urandom w))) (c_id r)]
       \<and> stages_entered (new_effects w (snd (create_touchpoints_for_customer self w))) =
           all_stages"
proof -
  let ?name = "opt_val (customer_name self)"
  let ?tid = "uuid_str (uuid4 (urandom w))"
  from first_three_stages[OF l r i d] r'
  obtain w1 w2 w3 where
        s1: "get_customer_id self ?name (started self w) = (Inr (c_id r), w1)"
    and s2: "create_touchpoints_record self (c_id r) w1 = (Inr (Some ?tid), w2)"
    and s3: "get_customer_details self (c_id r) w2 = (Inr (Some (customer_dict r')), w3)"
    and u3: "unchanged_inputs w w3"
    and t3: "touchpoints w3 = touchpoints w @ [new_touchpoints_row ?tid (c_id r)]"
    and tr3: "trace w3 = trace w @
             [Enter ResolveCustomer, DbConnect (db_config self),
              DbExecute (SelectCustomerByName ?name),
              Enter CreateRecord, DbConnect (db_config self),
              DbExecute (InsertTouchpoints ?tid (c_id r)), DbCommit,
              Enter FetchSnapshot, DbConnect (db_config self),
              DbExecute (SelectCustomerById (c_id r))]"
    by auto
  obtain ok w4 where
    s4: "publish_touchpoints_created_event self ?tid (customer_dict r') w3 = (ok, w4)"
    by (cases "publish_touchpoints_created_event self ?tid (customer_dict r') w3")
  have "publish_fault w3 = Some (s, e)"
    using u3 p by (simp add: unchanged_inputs_def)
  from publish_fails[OF this, of self ?tid "customer_dict r'"] s4
  have ok: "ok = False" by simp
  from publish_frame[OF s4]
  have f4: "trace w4 = trace w3 @ new_effects w3 w4"
      "stages_entered (new_effects w3 w4) = [PublishEvent]"
      "statements (new_effects w3 w4) = []" "touchpoints w4 = touchpoints w3"
    by simp_all
  have n4: "new_effects w w4 =
             [Enter ResolveCustomer, DbConnect (db_config self),
              DbExecute (SelectCustomerByName ?name),
              Enter CreateRecord, DbConnect (db_config self),
              DbExecute (InsertTouchpoints ?tid (c_id r)), DbCommit,
              Enter FetchSnapshot, DbConnect (db_config self),
              DbExecute (SelectCustomerById (c_id r))] @ new_effects w3 w4"
    by (rule new_effects_append) (simp add: f4(1) tr3)
  have run: "create_touchpoints_for_customer self w =
               (Inr False, logger_error [Lit ''Failed to publish NATS event''] w4)"
    using workflow_stage4[OF s1 t s2 uuid_str_nonempty s3 customer_dict_nonempty s4] ok
    by simp
  show ?thesis
    by (simp add: run n4 f4 t3 statements_append stages_entered_append all_stages_def)
qed

text \<open>The theorem on a failed publish at a world whose bus refuses the connection.\<close>

theorem publish_failure_keeps_record_witness:
  "publish_fault bus_down_world = Some (AtBusConnect, OtherException)
   \<and> fst (create_touchpoints_for_customer example_creator bus_down_world) = Inr False
   \<and> touchpoints (snd (create_touchpoints_for_customer example_creator bus_down_world)) =
       [new_touchpoints_row ''00000000-0000-4000-8000-000000000000'' (PStr ''c-001'')]
   \<and> filter on_touchpoints
       (statements (trace (snd (create_touchpoints_for_customer example_creator bus_down_world)))) =
       [InsertTouchpoints ''00000000-0000-4000-8000-000000000000'' (PStr ''c-001'')]"
proof -
  have f: "lookup_fault bus_down_world = None"
    "find (\<lambda>r. sql_eq bus_down_world (c_name r) (opt_val (customer_name example_creator)))
       (customers bus_down_world) = Some example_customer"
    "truthy (c_id example_customer)"
    "insert_fault bus_down_world = None"
    "details_fault bus_down_world = None"
    "find (\<lambda>r'. sql_eq bus_down_world (c_id r') (c_id example_customer))
       (customers bus_down_world) = Some example_customer"
    "publish_fault bus_down_world = Some (AtBusConnect, OtherException)"
    by (simp_all add: bus_down_world_def quiet_world_def example_customer_def example_creator_name)
  have e: "touchpoints bus_down_world = []" "trace bus_down_world = []"
    "urandom bus_down_world = 0" "c_id example_customer = PStr ''c-001''"
    by (simp_all add: bus_down_world_def quiet_world_def example_customer_def example_creator_name)
  show ?thesis
    using publish_failure_keeps_record[OF f] f(7)
    by (simp add: e uuid_str_zero new_effects_def)
qed

text \<open>
  C5. In every run that returns \<open>True\<close>, exactly one message is published, on the
  configured subject: a document with \<open>event_type\<close> the constant
  \<open>touchpoints-created\<close>, \<open>timestamp\<close> the clock's \<open>isoformat()\<close> followed by \<open>Z\<close>
  (an ISO-8601 UTC string whenever the clock is a valid datetime), \<open>touchpoints_id\<close> the
  identifier stage 2 returned and inserted, \<open>customer\<close> the snapshot stage 3 returned,
  \<open>touchpoints\<close> the four schedule fields mapped to null, and \<open>next_actions\<close> the four
  fixed strings in order.
\<close>

theorem published_event_shape:
  assumes "fst (create_touchpoints_for_customer self w) = Inr True"
  shows "\<exists>cid tid cd w1 w2 w3.
           get_customer_id self (opt_val (customer_name self)) (started self w) = (Inr cid, w1)
         \<and> create_touchpoints_record self cid w1 = (Inr (Some tid), w2)
         \<and> get_customer_details self cid w2 = (Inr (Some cd), w3)
         \<and> touchpoints (snd (create_touchpoints_for_customer self w)) =
             touchpoints w @ [new_touchpoints_row tid cid]
         \<and> bus (snd (create_touchpoints_for_customer self w)) =
             bus w @
             [(nats_subject self,
               JDict [(''event_type'', JStr ''touchpoints-created''),
                      (''timestamp'', JStr (isoformat (utcnow w) @ ''Z'')),
                      (''touchpoints_id'', JStr tid),
                      (''customer'', JDict (map (\<lambda>(k, v). (k, to_json v)) cd)),
                      (''touchpoints'', JDict [(''welcome_outreach'', JNull),
                                               (''technical_onboarding'', JNull),
                                               (''follow_up_call'', JNull),
                                               (''feedback_session'', JNull)]),
                      (''next_actions'',
                       JList [JStr ''Schedule welcome outreach'',
                              JStr ''Plan technical onboarding session'',
                              JStr ''Set up follow-up call'',
                              JStr ''Arrange feedback session''])])]
         \<and> last (isoformat (utcnow w) @ ''Z'') = CHR ''Z''
         \<and> (valid_datetime (utcnow w) \<longrightarrow> iso8601_utc (isoformat (utcnow w) @ ''Z''))"
proof -
  let ?name = "opt_val (customer_name self)"
  from workflow_True[OF assms]
  obtain cid w1 tid w2 cd w3 w4 where
        s1: "get_customer_id self ?name (started self w) = (Inr cid, w1)"
    and t: "truthy cid"
    and s2: "create_touchpoints_record self cid w1 = (Inr (Some tid), w2)"
    and s3: "get_customer_details self cid w2 = (Inr (Some cd), w3)"
    and s4: "publish_touchpoints_created_event self tid cd w3 = (True, w4)"
    and fin: "snd (create_touchpoints_for_customer self w) =
             logger_info [Lit ''Successfully created touchpoints and published event''] w4"
    by blast
  from get_customer_id_frame[OF s1]
  have f1: "unchanged_inputs w w1" "touchpoints w1 = touchpoints w" "bus w1 = bus w"
    by simp_all
  from create_touchpoints_record_frame[OF s2]
  have f2: "unchanged_inputs w1 w2" "bus w2 = bus w1" by simp_all
  from get_customer_details_frame[OF s3]
  have f3: "unchanged_inputs w2 w3" "touchpoints w3 = touchpoints w2" "bus w3 = bus w2"
    by simp_all
  have u3: "unchanged_inputs w w3"
    using f1(1) f2(1) f3(1) by (blast intro: unchanged_inputs_trans)
  from created_row[OF s2] have t2: "touchpoints w2 = touchpoints w1 @ [new_touchpoints_row tid cid]"
    by simp
  have "publish_fault w3 = None" using s4 by (rule publish_True)
  from publish_ok[OF this, of self tid cd] s4
  have b4: "bus w4 = bus w3 @ [(nats_subject self, event_payload (utcnow w3) tid cd)]"
    and t4: "touchpoints w4 = touchpoints w3"
    by auto
  have now: "utcnow w3 = utcnow w"
    using u3 by (simp add: unchanged_inputs_def)
  have iso: "valid_datetime (utcnow w) \<longrightarrow> iso8601_utc (isoformat (utcnow w) @ ''Z'')"
    by (simp add: isoformat_iso8601)
  show ?thesis
    using s1 s2 s3 iso
    by (intro exI[of _ cid] exI[of _ tid] exI[of _ cd] exI[of _ w1] exI[of _ w2] exI[of _ w3])
       (simp add: fin b4 t4 f1 f2 f3 t2 now event_payload_def next_actions_def)
qed

text \<open>The event theorem at the quiet world.\<close>

theorem published_event_shape_witness:
  "fst (create_touchpoints_for_customer example_creator quiet_world) = Inr True
   \<and> valid_datetime (utcnow quiet_world)
   \<and> iso8601_utc ''2025-01-02T03:04:05.000678Z''
   \<and> bus (snd (create_touchpoints_for_customer example_creator quiet_world)) =
       [(''touchpoints-created'',
         JDict [(''event_type'', JStr ''touchpoints-created''),
                (''timestamp'', JStr ''2025-01-02T03:04:05.000678Z''),
                (''touchpoints_id'', JStr ''00000000-0000-4000-8000-000000000000''),
                (''customer'',
                 JDict [(''id'', JStr ''c-001''), (''name'', JStr ''Example Tech Solutions''),
                        (''subscription_tier'', JStr ''enterprise''),
                        (''created_at'', JStr ''2024-03-07T09:05:01''),
                        (''updated_at'', JNull)]),
                (''touchpoints'', JDict [(''welcome_outreach'', JNull),
                                         (''technical_onboarding'', JNull),
                                         (''follow_up_call'', JNull),
                                         (''feedback_session'', JNull)]),
                (''next_actions'',
                 JList [JStr ''Schedule welcome outreach'',
                        JStr ''Plan technical onboarding session'',
                        JStr ''Set up follow-up call'',
                        JStr ''Arrange feedback session''])])]
   \<and> touchpoints (snd (create_touchpoints_for_customer example_creator quiet_world)) =
       [new_touchpoints_row ''00000000-0000-4000-8000-000000000000'' (PStr ''c-001'')]"
proof -
  note h = quiet_run(1)
  have d: "customer_dict example_customer =
             [(''id'', PStr ''c-001''), (''name'', PStr ''Example Tech Solutions''),
              (''subscription_tier'', PStr ''enterprise''),
              (''created_at'', PStr ''2024-03-07T09:05:01''), (''updated_at'', PNone)]"
    unfolding example_customer_def by code_simp
  from published_event_shape[OF h]
  have "iso8601_utc (isoformat (utcnow quiet_world) @ ''Z'')"
    by (auto simp: quiet_world_facts valid_example_now)
  then have i: "iso8601_utc ''2025-01-02T03:04:05.000678Z''"
    by (simp add: quiet_world_facts isoformat_example_now)
  show ?thesis
    using h i quiet_run(2,3)
    by (simp add: quiet_world_facts valid_example_now event_payload_def next_actions_def d
          isoformat_example_now)
qed

section \<open>The exit status\<close>

lemma main_after_init:
  assumes "TouchpointsCreator_init w = (Inr self, w0)"
  shows "exit_status (main w) =
           (if fst (create_touchpoints_for_customer self w0) = Inr True then 0 else 1)"
proof -
  obtain r w' where run: "create_touchpoints_for_customer self w0 = (r, w')"
    by (cases "create_touchpoints_for_customer self w0")
  show ?thesis
  proof (cases r)
    case (Inl a)
    with run workflow_abort_is_exception[of self w0 a] obtain e where "a = Raised e" by auto
    with assms run Inl show ?thesis
      by (simp add: main_def exit_status_def)
  next
    case (Inr ok)
    with assms run show ?thesis
      by (simp add: main_def exit_status_def)
  qed
qed

text \<open>
  C7. The exit status of \<open>main\<close> is 0 or 1. It is 0 exactly when construction succeeds
  and each of the four stages returns a truthy result (an identifier, a record
  identifier, a snapshot, \<open>True\<close>). It is 1 when construction is left by
  \<open>SystemExit(1)\<close> (validation) or by an exception (\<open>ValueError\<close> for the port), and when
  the workflow returns \<open>False\<close> or raises.
\<close>

theorem exit_status_reflects_outcome:
  "(exit_status (main w) = 0 \<or> exit_status (main w) = 1)
   \<and> (exit_status (main w) = 0 \<longleftrightarrow>
        (\<exists>self w0 cid w1 tid w2 cd w3 w4.
           TouchpointsCreator_init w = (Inr self, w0)
         \<and> get_customer_id self (opt_val (customer_name self)) (started self w0) = (Inr cid, w1)
         \<and> truthy cid
         \<and> create_touchpoints_record self cid w1 = (Inr (Some tid), w2)
         \<and> get_customer_details self cid w2 = (Inr (Some cd), w3)
         \<and> publish_touchpoints_created_event self tid cd w3 = (True, w4)))
   \<and> (\<forall>a. fst (TouchpointsCreator_init w) = Inl a \<longrightarrow> exit_status (main w) = 1)
   \<and> (\<forall>self w0. TouchpointsCreator_init w = (Inr self, w0)
         \<and> fst (create_touchpoints_for_customer self w0) \<noteq> Inr True
        \<longrightarrow> exit_status (main w) = 1)"
proof -
  obtain r0 w0 where init: "TouchpointsCreator_init w = (r0, w0)"
    by (cases "TouchpointsCreator_init w")
  show ?thesis
  proof (cases r0)
    case (Inl a)
    with init have "exit_status (main w) = 1"
      by (intro main_init_abort[of w a]) simp
    with init Inl show ?thesis by simp
  next
    case (Inr self)
    note m = main_after_init[OF init[unfolded Inr]]
    show ?thesis
      using init Inr m workflow_succeeds_iff[of self w0]
      by (auto split: if_splits)
  qed
qed

text \<open>
  The theorem at five worlds: a full success, an unknown customer, an unreachable bus, a
  missing option and a port that is not a number.
\<close>

theorem exit_status_reflects_outcome_witness:
  "exit_status (main quiet_world) = 0
   \<and> exit_status (main unknown_customer_world) = 1
   \<and> exit_status (main bus_down_world) = 1
   \<and> exit_status (main no_host_world) = 1
   \<and> exit_status (main bad_port_world) = 1"
proof -
  have i: "TouchpointsCreator_init quiet_world = (Inr example_creator, quiet_world)"
    "TouchpointsCreator_init unknown_customer_world = (Inr example_creator, unknown_customer_world)"
    "TouchpointsCreator_init bus_down_world = (Inr example_creator, bus_down_world)"
    by (rule init_full_environ, simp add: quiet_world_def unknown_customer_world_def
          bus_down_world_def)+
  from workflow_succeeds_iff[of example_creator quiet_world] quiet_run(1) i(1)
  have "exit_status (main quiet_world) = 0"
    using exit_status_reflects_outcome[of quiet_world] by blast
  moreover
  have "fst (create_touchpoints_for_customer example_creator unknown_customer_world) \<noteq> Inr True"
    using no_customer_unresolved by simp
  with i(2) have "exit_status (main unknown_customer_world) = 1"
    using exit_status_reflects_outcome[of unknown_customer_world] by blast
  moreover
  have "fst (create_touchpoints_for_customer example_creator bus_down_world) \<noteq> Inr True"
    using bus_down_unpublished by simp
  with i(3) have "exit_status (main bus_down_world) = 1"
    using exit_status_reflects_outcome[of bus_down_world] by blast
  moreover
  have "fst (TouchpointsCreator_init no_host_world) = Inl (SysExit 1)"
    by (subst init_cases)
       (simp add: no_host_world_def quiet_world_def full_environ_def getenv_default_def
          py_int_default_port missing_vars_def required_vars_def getenv_def)
  then have "exit_status (main no_host_world) = 1"
    using exit_status_reflects_outcome[of no_host_world] by blast
  moreover
  have "fst (TouchpointsCreator_init bad_port_world) = Inl (Raised ValueError)"
    by (subst init_cases)
       (simp add: bad_port_world_def quiet_world_def getenv_default_def py_int_abc)
  then have "exit_status (main bad_port_world) = 1"
    using exit_status_reflects_outcome[of bad_port_world] by blast
  ultimately show ?thesis by simp
qed

end
